theory Spec2Isabelle
  imports Complex_Main
begin

section \<open>The monitoring client of mindbot-vr\<close>

text \<open>
  A shallow embedding of the browser client, \<^verbatim>\<open>src/static/app.js\<close>, and of the older
  variant \<^verbatim>\<open>src/backend/static/app.js\<close> where the two differ. The script's module-level
  variables and the page elements it writes are the fields of one record, \<open>client\<close>; every
  function of the script that changes them takes the record and returns it updated.
  An awaited network call is cut at the \<^verbatim>\<open>await\<close>: one function builds the request from
  the state at call time, another applies the completion (the parsed body, or the
  message of the rejection) to the state at completion time, so that other callbacks
  may run in between, as they do on the event loop.

  What the environment decides is an argument: the value \<^verbatim>\<open>Date.now()\<close> returns, whether
  audio synthesis throws, the wall-clock time of a label, the time stamp of an
  animation frame. In the record, JSON numbers are the reals they denote: there the
  script only compares them with constants and stores them. The animated numerals
  (\<^verbatim>\<open>animateNumber\<close>) compute with them; they are kept apart from the record, with
  binary64 arithmetic. The chat transcript, the chart and the map are not modelled.
\<close>

subsection \<open>Payloads\<close>

record vitals =
  pulse_bpm :: real
  temperature_c :: real
  oxygen_percent :: real
  air_quality_ppm :: real

text \<open>A field that is absent, \<^verbatim>\<open>null\<close> or \<^verbatim>\<open>undefined\<close> is \<open>None\<close>.\<close>

record risk =
  risk_level :: "string option"
  risk_score :: "real option"

text \<open>
  The client only interpolates a hospital's fields into text, so the numeric ones are
  held as their rendering.
\<close>

record hospital =
  name :: string
  distance_km :: string
  eta_minutes :: string
  phone :: string

subsection \<open>Client state\<close>

record pill =
  textContent :: string
  className :: string

text \<open>
  The parts of the page \<^verbatim>\<open>setRiskUI\<close> writes: the two texts (of \<^verbatim>\<open>riskMeta\<close> the number
  after \<^verbatim>\<open>Score: \<close>), the class list of the application element and three colours.
\<close>

record risk_view =
  riskText :: string
  riskMeta :: real
  classList :: "string list"
  indicatorBackground :: string
  pillBorderColor :: string
  pillColor :: string

text \<open>
  One entry of \<open>alertLog\<close> per call of \<^verbatim>\<open>playIcuAlert\<close>, in call order: the kind asked
  for, the clock value read, and what became of the call. The log is the observable
  behaviour of the function (the tone started, or nothing), not a variable of the script.
\<close>

datatype outcome =
    Debounced
  | SynthFailed
  | Sounded (frequency: nat) (stop_after_ms: nat)

datatype cue = Cue (cue_kind: string) (cue_at: int) (cue_outcome: outcome)

text \<open>
  The text of \<^verbatim>\<open>sosResult\<close>, kept as the template that was written (\<^verbatim>\<open>AUTO EMERGENCY: ...\<close>
  or \<^verbatim>\<open>SOS: ...\<close>) and the hospital it was written for.
\<close>

datatype banner =
    NoBanner
  | AutoEmergency hospital
  | SosBanner hospital

record client =
  sessionId :: string
  storedSessionId :: "string option"
  lastRiskLevel :: string
  lastKnownLocation :: "real \<times> real"
  pulseSeries :: "real list"
  pulseLabels :: "string list"
  lastBeepAt :: int
  alertLog :: "cue list"
  pulseAlert :: pill
  tempAlert :: pill
  riskView :: risk_view
  sosResult :: banner
  toastText :: string
  toastHidden :: bool
  polling :: bool
  listening :: bool

text \<open>
  The module-level initialisers of \<^verbatim>\<open>src/static/app.js\<close> (lines 6, 40-48, 187-188), on
  top of whatever the page holds: \<open>stored\<close> is \<^verbatim>\<open>localStorage.getItem(sessionKey)\<close>.
\<close>

definition load :: "string option \<Rightarrow> real \<times> real \<Rightarrow> client \<Rightarrow> client" where
  "load stored center page =
     page\<lparr>sessionId := (case stored of None \<Rightarrow> '''' | Some v \<Rightarrow> v),
          storedSessionId := stored,
          lastRiskLevel := '''',
          lastKnownLocation := center,
          pulseSeries := [],
          pulseLabels := [],
          lastBeepAt := 0,
          alertLog := [],
          polling := False,
          listening := False\<rparr>"

subsection \<open>Audio cue (\<^verbatim>\<open>playIcuAlert\<close>, src/static/app.js 187-212)\<close>

text \<open>
  \<open>now\<close> is the value of \<^verbatim>\<open>Date.now()\<close> (milliseconds); \<open>audioOk\<close> is false when anything
  inside the \<^verbatim>\<open>try\<close> block throws, in which case the \<^verbatim>\<open>catch\<close> returns silently.
\<close>

record env =
  now :: int
  audioOk :: bool

definition tone :: "string \<Rightarrow> outcome" where
  "tone kind = (if kind = ''critical'' then Sounded 880 300 else Sounded 660 200)"

definition playIcuAlert :: "string \<Rightarrow> env \<Rightarrow> client \<Rightarrow> client" where
  "playIcuAlert kind e s =
     (if now e - lastBeepAt s < 1200
      then s\<lparr>alertLog := alertLog s @ [Cue kind (now e) Debounced]\<rparr>
      else
        (let s1 = s\<lparr>lastBeepAt := now e\<rparr>
         in if audioOk e
            then s1\<lparr>alertLog := alertLog s1 @ [Cue kind (now e) (tone kind)]\<rparr>
            else s1\<lparr>alertLog := alertLog s1 @ [Cue kind (now e) SynthFailed]\<rparr>))"

subsection \<open>Risk styling (\<^verbatim>\<open>setRiskUI\<close>, src/static/app.js 151-185)\<close>

definition classList_remove :: "string list \<Rightarrow> string list \<Rightarrow> string list" where
  "classList_remove names cl = filter (\<lambda>c. c \<notin> set names) cl"

definition classList_add :: "string list \<Rightarrow> string list \<Rightarrow> string list" where
  "classList_add names cl = foldl (\<lambda>acc c. if c \<in> set acc then acc else acc @ [c]) cl names"

text \<open>\<^verbatim>\<open>String((risk || {}).risk_level || "")\<close>, with \<open>None\<close> for a missing \<^verbatim>\<open>risk\<close>.\<close>

definition level_of :: "risk option \<Rightarrow> string" where
  "level_of r =
     (case r of
        None \<Rightarrow> ''''
      | Some k \<Rightarrow> (case risk_level k of None \<Rightarrow> '''' | Some l \<Rightarrow> l))"

definition score_of :: "risk option \<Rightarrow> real" where
  "score_of r =
     (case r of
        None \<Rightarrow> 0
      | Some k \<Rightarrow> (case risk_score k of None \<Rightarrow> 0 | Some x \<Rightarrow> x))"

definition style_for :: "string \<Rightarrow> string list \<Rightarrow> risk_view \<Rightarrow> risk_view" where
  "style_for level cleared v =
     (if level = ''Critical'' then
        v\<lparr>classList := classList_add [''risk-critical'', ''critical''] cleared,
          indicatorBackground := ''rgba(255,61,113,.9)'',
          pillBorderColor := ''rgba(255,61,113,.35)'',
          pillColor := ''rgba(255,61,113,.95)''\<rparr>
      else if level = ''Medium'' then
        v\<lparr>classList := classList_add [''risk-medium''] cleared,
          indicatorBackground := ''rgba(255,183,3,.9)'',
          pillBorderColor := ''rgba(255,183,3,.35)'',
          pillColor := ''rgba(255,183,3,.95)''\<rparr>
      else if level = ''Low'' then
        v\<lparr>classList := classList_add [''risk-low''] cleared,
          indicatorBackground := ''rgba(46,229,157,.9)'',
          pillBorderColor := ''rgba(46,229,157,.35)'',
          pillColor := ''rgba(46,229,157,.95)''\<rparr>
      else
        v\<lparr>classList := cleared,
          indicatorBackground := ''rgba(169,183,223,.7)'',
          pillBorderColor := ''rgba(255,255,255,.14)'',
          pillColor := ''''\<rparr>)"

definition risk_classes :: "string list" where
  "risk_classes = [''risk-low'', ''risk-medium'', ''risk-critical'', ''critical'']"

definition setRiskUI :: "risk option \<Rightarrow> env \<Rightarrow> client \<Rightarrow> client" where
  "setRiskUI r e s =
     (let level = level_of r;
          score = score_of r;
          v0 = riskView s;
          v1 = v0\<lparr>riskText := (if level \<noteq> '''' then ''Risk: '' @ level else ''Risk: --''),
                  riskMeta := score\<rparr>;
          v2 = style_for level (classList_remove risk_classes (classList v1)) v1;
          s1 = s\<lparr>riskView := v2\<rparr>
      in if level \<noteq> '''' \<and> level \<noteq> lastRiskLevel s1
         then
           (let s2 = (if level = ''Critical'' then playIcuAlert ''critical'' e s1 else s1);
                s3 = (if level = ''Medium'' then playIcuAlert ''medium'' e s2 else s2)
            in s3\<lparr>lastRiskLevel := level\<rparr>)
         else s1)"

subsection \<open>Pill alerts (\<^verbatim>\<open>applyAlerts\<close>)\<close>

text \<open>src/static/app.js 133-149.\<close>

definition applyAlerts :: "vitals \<Rightarrow> client \<Rightarrow> client" where
  "applyAlerts v s =
     (let s1 = (if pulse_bpm v > 110
                then s\<lparr>pulseAlert := \<lparr>textContent = ''High'', className = ''pill pill-warn''\<rparr>\<rparr>
                else s\<lparr>pulseAlert := \<lparr>textContent = ''Normal'', className = ''pill pill-ok''\<rparr>\<rparr>)
      in if temperature_c v > 38
         then s1\<lparr>tempAlert := \<lparr>textContent = ''Fever'', className = ''pill pill-danger''\<rparr>\<rparr>
         else s1\<lparr>tempAlert := \<lparr>textContent = ''Normal'', className = ''pill pill-ok''\<rparr>\<rparr>)"

text \<open>src/backend/static/app.js 74-90: the same, with the label \<^verbatim>\<open>Warning\<close>.\<close>

definition applyAlerts_backend :: "vitals \<Rightarrow> client \<Rightarrow> client" where
  "applyAlerts_backend v s =
     (let s1 = (if pulse_bpm v > 110
                then s\<lparr>pulseAlert := \<lparr>textContent = ''Warning'', className = ''pill pill-warn''\<rparr>\<rparr>
                else s\<lparr>pulseAlert := \<lparr>textContent = ''Normal'', className = ''pill pill-ok''\<rparr>\<rparr>)
      in if temperature_c v > 38
         then s1\<lparr>tempAlert := \<lparr>textContent = ''Fever'', className = ''pill pill-danger''\<rparr>\<rparr>
         else s1\<lparr>tempAlert := \<lparr>textContent = ''Normal'', className = ''pill pill-ok''\<rparr>\<rparr>)"

subsection \<open>Rolling series (\<^verbatim>\<open>pushPulse\<close>)\<close>

text \<open>\<^verbatim>\<open>String(n)\<close> for a non-negative integer, and \<^verbatim>\<open>padStart(2, "0")\<close>.\<close>

fun String_nat :: "nat \<Rightarrow> string" where
  "String_nat n =
     (if n < 10 then [''0123456789'' ! n]
      else String_nat (n div 10) @ [''0123456789'' ! (n mod 10)])"

declare String_nat.simps [simp del]

definition padStart2 :: "string \<Rightarrow> string" where
  "padStart2 t = replicate (2 - length t) (CHR ''0'') @ t"

record clock =
  getHours :: nat
  getMinutes :: nat
  getSeconds :: nat

definition timeLabel :: "clock \<Rightarrow> string" where
  "timeLabel t =
     padStart2 (String_nat (getHours t)) @ '':'' @
     padStart2 (String_nat (getMinutes t)) @ '':'' @
     padStart2 (String_nat (getSeconds t))"

text \<open>
  The \<^verbatim>\<open>while\<close> loop: \<^verbatim>\<open>shift()\<close> drops the first element and leaves an empty array
  empty, which is what \<open>tl\<close> does.
\<close>

fun evict :: "nat \<Rightarrow> 'a list \<times> 'b list \<Rightarrow> 'a list \<times> 'b list" where
  "evict maxPoints (series, labels) =
     (if length series > maxPoints
      then evict maxPoints (tl series, tl labels)
      else (series, labels))"

declare evict.simps [simp del]

text \<open>src/static/app.js 289-302; \<open>t\<close> is \<^verbatim>\<open>new Date()\<close>.\<close>

definition pushPulse :: "clock \<Rightarrow> real \<Rightarrow> client \<Rightarrow> client" where
  "pushPulse t pulse s =
     (let label = timeLabel t;
          labels = pulseLabels s @ [label];
          series = pulseSeries s @ [pulse];
          kept = evict 60 (series, labels)
      in s\<lparr>pulseSeries := fst kept, pulseLabels := snd kept\<rparr>)"

text \<open>src/backend/static/app.js 173-186: \<^verbatim>\<open>maxPoints = 30\<close>.\<close>

definition pushPulse_backend :: "clock \<Rightarrow> real \<Rightarrow> client \<Rightarrow> client" where
  "pushPulse_backend t pulse s =
     (let label = timeLabel t;
          labels = pulseLabels s @ [label];
          series = pulseSeries s @ [pulse];
          kept = evict 30 (series, labels)
      in s\<lparr>pulseSeries := fst kept, pulseLabels := snd kept\<rparr>)"

subsection \<open>Requests and responses\<close>

text \<open>
  A request is kept as its endpoint and the values the client puts in it. The query
  parameter of \<^verbatim>\<open>/api/vitals\<close> is present only when \<^verbatim>\<open>sessionId\<close> is truthy; the two
  POST bodies always carry \<^verbatim>\<open>session_id: sessionId\<close>.
\<close>

datatype request =
    GetVitals "string option"
  | PostAskAi string string real real
  | PostSos real real string

fun attached :: "request \<Rightarrow> string option" where
  "attached (GetVitals q) = q"
| "attached (PostAskAi message sid lat lng) = Some sid"
| "attached (PostSos lat lng sid) = Some sid"

text \<open>
  A completed call is \<open>Inr\<close> of the parsed body, or \<open>Inl\<close> of the message of the error
  \<^verbatim>\<open>apiJson\<close> throws (rejected fetch or a status that is not 2xx).
\<close>

record vitals_data =
  session_id :: string
  vitals :: vitals
  risk :: "risk option"

record auto_emergency =
  enabled :: bool
  nearest_hospital :: "hospital option"

record chat_data =
  session_id :: string
  reply :: string
  vitals :: "vitals option"
  risk :: "risk option"
  auto_emergency :: "auto_emergency option"

record sos_data =
  session_id :: string
  nearest_hospital :: hospital

definition setToast :: "string \<Rightarrow> client \<Rightarrow> client" where
  "setToast text s =
     (if text = '''' then s\<lparr>toastHidden := True, toastText := ''''\<rparr>
      else s\<lparr>toastText := text, toastHidden := False\<rparr>)"

definition adopt :: "string \<Rightarrow> client \<Rightarrow> client" where
  "adopt sid s = s\<lparr>sessionId := sid, storedSessionId := Some sid\<rparr>"

subsection \<open>Vitals poll (\<^verbatim>\<open>refreshVitals\<close>)\<close>

definition refreshVitals_request :: "client \<Rightarrow> request" where
  "refreshVitals_request s =
     GetVitals (if sessionId s \<noteq> '''' then Some (sessionId s) else None)"

text \<open>
  src/static/app.js 306-317, from the completion of the fetch on. A rejection leaves
  the state as it is and is passed to the caller.
\<close>

definition refreshVitals_response ::
    "string + vitals_data \<Rightarrow> clock \<Rightarrow> env \<Rightarrow> client \<Rightarrow> string + client" where
  "refreshVitals_response resp t e s =
     (case resp of
        Inl msg \<Rightarrow> Inl msg
      | Inr data \<Rightarrow>
          (let s1 = adopt (vitals_data.session_id data) s;
               v = vitals_data.vitals data;
               s2 = applyAlerts v s1;
               s3 = pushPulse t (pulse_bpm v) s2;
               r = (case vitals_data.risk data of
                      None \<Rightarrow> \<lparr>risk_level = None, risk_score = None\<rparr>
                    | Some k \<Rightarrow> k)
           in Inr (setRiskUI (Some r) e s3)))"

text \<open>src/backend/static/app.js 188-201: no risk styling.\<close>

definition refreshVitals_backend_response ::
    "string + vitals_data \<Rightarrow> clock \<Rightarrow> client \<Rightarrow> string + client" where
  "refreshVitals_backend_response resp t s =
     (case resp of
        Inl msg \<Rightarrow> Inl msg
      | Inr data \<Rightarrow>
          (let s1 = adopt (vitals_data.session_id data) s;
               v = vitals_data.vitals data;
               s2 = applyAlerts_backend v s1
           in Inr (pushPulse_backend t (pulse_bpm v) s2)))"

text \<open>The interval callback of both files: \<^verbatim>\<open>refreshVitals().catch(() => {})\<close>.\<close>

definition poll :: "string + vitals_data \<Rightarrow> clock \<Rightarrow> env \<Rightarrow> client \<Rightarrow> client" where
  "poll resp t e s =
     (case refreshVitals_response resp t e s of Inl msg \<Rightarrow> s | Inr s' \<Rightarrow> s')"

definition poll_backend :: "string + vitals_data \<Rightarrow> clock \<Rightarrow> client \<Rightarrow> client" where
  "poll_backend resp t s =
     (case refreshVitals_backend_response resp t s of Inl msg \<Rightarrow> s | Inr s' \<Rightarrow> s')"

subsection \<open>Assistant turn (\<^verbatim>\<open>sendChat\<close>, src/static/app.js 397-448)\<close>

text \<open>
  \<^verbatim>\<open>String.prototype.trim\<close> removes white space and line terminators from both ends.
  A \<open>string\<close> holds the UTF-8 bytes of the text, so each such character is the list
  of its bytes: tab, line feed, vertical tab, form feed, carriage return, space,
  U+00A0, U+1680, U+2000 to U+200A, U+2028, U+2029, U+202F, U+205F, U+3000 and U+FEFF.
\<close>

definition white_space :: "string list" where
  "white_space =
     map (\<lambda>c. [c]) [CHR 0x09, CHR 0x0A, CHR 0x0B, CHR 0x0C, CHR 0x0D, CHR 0x20] @
     [[CHR 0xC2, CHR 0xA0], [CHR 0xE1, CHR 0x9A, CHR 0x80]] @
     map (\<lambda>c. [CHR 0xE2, CHR 0x80, c])
       [CHR 0x80, CHR 0x81, CHR 0x82, CHR 0x83, CHR 0x84, CHR 0x85, CHR 0x86, CHR 0x87,
        CHR 0x88, CHR 0x89, CHR 0x8A, CHR 0xA8, CHR 0xA9, CHR 0xAF] @
     [[CHR 0xE2, CHR 0x81, CHR 0x9F], [CHR 0xE3, CHR 0x80, CHR 0x80],
      [CHR 0xEF, CHR 0xBB, CHR 0xBF]]"

text \<open>Drop from the front of \<open>t\<close>, as long as there is one, a member of \<open>ws\<close>.\<close>

function strip :: "string list \<Rightarrow> string \<Rightarrow> string" where
  "strip ws t =
     (case filter (\<lambda>w. w \<noteq> [] \<and> take (length w) t = w) ws of
        [] \<Rightarrow> t
      | w # others \<Rightarrow> strip ws (drop (length w) t))"
  by pat_completeness auto
termination
proof (relation "measure (\<lambda>(ws, t). length t)")
  show "wf (measure (\<lambda>(ws, t). length t))" by simp
next
  fix ws :: "string list" and t w :: string and others :: "string list"
  assume "filter (\<lambda>w. w \<noteq> [] \<and> take (length w) t = w) ws = w # others"
  then have "w \<in> set (filter (\<lambda>w. w \<noteq> [] \<and> take (length w) t = w) ws)" by simp
  then have w: "w \<noteq> []" and pre: "take (length w) t = w" by simp_all
  have "length (take (length w) t) = min (length t) (length w)" by simp
  with pre have "length w \<le> length t" by simp
  moreover from w have "0 < length w" by simp
  ultimately have "length t - length w < length t" by arith
  then show "((ws, drop (length w) t), (ws, t)) \<in> measure (\<lambda>(ws, t). length t)"
    by simp
qed

declare strip.simps [simp del]

text \<open>
  At the end of valid UTF-8 the reversed bytes of such a character can only be that
  character, so the end is stripped on the reversed text.
\<close>

definition trim :: "string \<Rightarrow> string" where
  "trim t = rev (strip (map rev white_space) (rev (strip white_space t)))"

text \<open>
  Up to the \<^verbatim>\<open>await apiJson\<close>: nothing is sent for a blank message; otherwise the toast
  is cleared and the body is built from the state of that moment.
\<close>

definition sendChat_request :: "string \<Rightarrow> client \<Rightarrow> request option \<times> client" where
  "sendChat_request text s =
     (let trimmed = trim text
      in if trimmed = '''' then (None, s)
         else
           (let s1 = setToast '''' s
            in (Some (PostAskAi trimmed (sessionId s1)
                        (fst (lastKnownLocation s1)) (snd (lastKnownLocation s1))),
                s1)))"

text \<open>Lines 412-417 and the \<^verbatim>\<open>catch\<close> of 439-441: the completion of the call.\<close>

definition sendChat_response :: "string + chat_data \<Rightarrow> client \<Rightarrow> client" where
  "sendChat_response resp s =
     (case resp of
        Inl msg \<Rightarrow> setToast (''Assistant error: '' @ msg) s
      | Inr data \<Rightarrow> adopt (chat_data.session_id data) s)"

text \<open>
  Lines 423-438, which run once the typewriter promise has resolved: \<open>e1\<close> is the
  environment of the call of \<^verbatim>\<open>setRiskUI\<close>, \<open>e2\<close> that of the forced cue.
\<close>

definition sendChat_apply :: "chat_data \<Rightarrow> clock \<Rightarrow> env \<Rightarrow> env \<Rightarrow> client \<Rightarrow> client" where
  "sendChat_apply data t e1 e2 s =
     (let s1 = (case chat_data.vitals data of
                  None \<Rightarrow> s
                | Some v \<Rightarrow> pushPulse t (pulse_bpm v) (applyAlerts v s));
          s2 = (case chat_data.risk data of
                  None \<Rightarrow> s1
                | Some r \<Rightarrow> setRiskUI (Some r) e1 s1)
      in case chat_data.auto_emergency data of
           None \<Rightarrow> s2
         | Some a \<Rightarrow>
             (if enabled a
              then (case auto_emergency.nearest_hospital a of
                      None \<Rightarrow> s2
                    | Some h \<Rightarrow> playIcuAlert ''critical'' e2 (s2\<lparr>sosResult := AutoEmergency h\<rparr>))
              else s2))"

subsection \<open>SOS (\<^verbatim>\<open>sos\<close>, src/static/app.js 450-490)\<close>

definition bullet :: string where
  "bullet = [CHR 0xE2, CHR 0x80, CHR 0xA2]"

definition ellipsis :: string where
  "ellipsis = [CHR 0xE2, CHR 0x80, CHR 0xA6]"

text \<open>\<^verbatim>\<open>getGeo\<close> never rejects: without a position it resolves to the centre.\<close>

definition getGeo :: "(real \<times> real) option \<Rightarrow> real \<times> real \<Rightarrow> real \<times> real" where
  "getGeo position center = (case position of None \<Rightarrow> center | Some p \<Rightarrow> p)"

definition sos_begin :: "client \<Rightarrow> client" where
  "sos_begin s = setToast (''Activating SOS'' @ ellipsis) s"

definition sos_request :: "real \<times> real \<Rightarrow> client \<Rightarrow> request \<times> client" where
  "sos_request p s =
     (let s1 = s\<lparr>lastKnownLocation := p\<rparr>
      in (PostSos (fst p) (snd p) (sessionId s1), s1))"

definition sos_response :: "string + sos_data \<Rightarrow> env \<Rightarrow> client \<Rightarrow> client" where
  "sos_response resp e s =
     (case resp of
        Inl msg \<Rightarrow> setToast (''SOS failed: '' @ msg) s
      | Inr data \<Rightarrow>
          (let s1 = adopt (sos_data.session_id data) s;
               h = sos_data.nearest_hospital data;
               s2 = s1\<lparr>sosResult := SosBanner h\<rparr>;
               s3 = setToast (''Nearest hospital: '' @ name h @ '' '' @ bullet @ '' ETA '' @
                              eta_minutes h @ '' min'') s2
           in playIcuAlert ''critical'' e s3))"

subsection \<open>Start-up (\<^verbatim>\<open>boot\<close>)\<close>

text \<open>
  src/static/app.js 497-524. \<^verbatim>\<open>boot\<close> is \<^verbatim>\<open>async\<close> and its awaits are in
  sequence, and before it reaches line 514 neither the interval nor the chat and SOS
  listeners exist, so no callback modelled here can run in between and its steps are
  taken in one go: \<open>hospitals\<close> is the outcome of \<^verbatim>\<open>await loadHospitals()\<close>, \<open>position\<close>
  that of geolocation, \<open>resp\<close> that of the first vitals fetch. A rejected await ends
  \<^verbatim>\<open>boot\<close> at once and reaches the \<^verbatim>\<open>catch\<close> of line 524. \<open>polling\<close> stands for
  the interval of line 514, \<open>listening\<close> for the listeners of lines 516-521.
\<close>

definition boot ::
    "string + unit \<Rightarrow> (real \<times> real) option \<Rightarrow> real \<times> real \<Rightarrow> string + vitals_data \<Rightarrow>
     clock \<Rightarrow> env \<Rightarrow> client \<Rightarrow> client" where
  "boot hospitals position center resp t e s =
     (case hospitals of
        Inl msg \<Rightarrow> setToast (''Boot error: '' @ msg) s
      | Inr u \<Rightarrow>
          (let s1 = s\<lparr>lastKnownLocation := getGeo position center\<rparr>
           in case refreshVitals_response resp t e s1 of
                Inl msg \<Rightarrow> setToast (''Boot error: '' @ msg) s1
              | Inr s2 \<Rightarrow> s2\<lparr>polling := True, listening := True\<rparr>))"

text \<open>
  src/backend/static/app.js 355-376. Nothing is awaited: the interval and the
  listeners are installed in the same turn, and the first fetch completes later,
  into its own \<^verbatim>\<open>catch\<close> (line 365).
\<close>

definition boot_backend :: "client \<Rightarrow> client" where
  "boot_backend s = s\<lparr>polling := True, listening := True\<rparr>"

definition firstVitals_backend :: "string + vitals_data \<Rightarrow> clock \<Rightarrow> client \<Rightarrow> client" where
  "firstVitals_backend resp t s =
     (case refreshVitals_backend_response resp t s of
        Inl msg \<Rightarrow> setToast (''Vitals error: '' @ msg) s
      | Inr s' \<Rightarrow> s')"

subsection \<open>Animated numerals (\<^verbatim>\<open>animateNumber\<close>, src/static/app.js 116-131)\<close>

text \<open>
  The animation computes with the numbers it is given, so here a number is a binary64
  value: the pair \<open>(m, e)\<close> stands for \<open>m * 2 ^ e\<close>. \<open>round64 num den ex\<close> is the double
  nearest to \<open>num / den * 2 ^ ex\<close> (for \<open>den > 0\<close>), ties to the even significand:
  the quotient is taken with at least 55 bits and a remainder, and cut to 53 bits.
  The exponent is not bounded, so overflow and subnormal results are outside the
  model, as are \<^verbatim>\<open>NaN\<close> and the sign of zero.
\<close>

type_synonym float64 = "int \<times> int"


















text \<open>What the closure \<^verbatim>\<open>frame\<close> holds on to.\<close>

record animation =
  current :: float64
  target :: float64
  start :: float64
  decimals :: nat





subsection \<open>The running client\<close>

text \<open>
  After start-up the script of \<^verbatim>\<open>src/static/app.js\<close> only runs callbacks, one at a
  time. An event is one such callback with what the environment hands to it.
\<close>

datatype event =
    PollTick
  | PollDone "string + vitals_data" clock env
  | ChatSubmit string
  | ChatResponse "string + chat_data"
  | ChatApply chat_data clock env env
  | SosClick
  | SosLocated "real \<times> real"
  | SosResponse "string + sos_data" env

fun step :: "client \<Rightarrow> event \<Rightarrow> client" where
  "step s PollTick = s"
| "step s (PollDone resp t e) = poll resp t e s"
| "step s (ChatSubmit text) = snd (sendChat_request text s)"
| "step s (ChatResponse resp) = sendChat_response resp s"
| "step s (ChatApply data t e1 e2) = sendChat_apply data t e1 e2 s"
| "step s SosClick = sos_begin s"
| "step s (SosLocated p) = snd (sos_request p s)"
| "step s (SosResponse resp e) = sos_response resp e s"

definition run :: "event list \<Rightarrow> client \<Rightarrow> client" where
  "run evs s = foldl step s evs"

text \<open>The request an event sends, if it sends one.\<close>

fun sent :: "client \<Rightarrow> event \<Rightarrow> request option" where
  "sent s PollTick = Some (refreshVitals_request s)"
| "sent s (ChatSubmit text) = fst (sendChat_request text s)"
| "sent s (SosLocated p) = Some (fst (sos_request p s))"
| "sent s ev = None"

text \<open>The identifier a completion carries, if the call succeeded.\<close>

fun issued :: "event \<Rightarrow> string option" where
  "issued (PollDone (Inr data) t e) = Some (vitals_data.session_id data)"
| "issued (ChatResponse (Inr data)) = Some (chat_data.session_id data)"
| "issued (SosResponse (Inr data) e) = Some (sos_data.session_id data)"
| "issued ev = None"

subsection \<open>Reading the alert log\<close>

fun audible :: "cue \<Rightarrow> bool" where
  "audible (Cue k t Debounced) = False"
| "audible (Cue k t SynthFailed) = False"
| "audible (Cue k t (Sounded f d)) = True"

definition audible_times :: "client \<Rightarrow> int list" where
  "audible_times s = map cue_at (filter audible (alertLog s))"

text \<open>
  The audible cues so far are pairwise at least 1200 ms apart, and none is later than
  \<^verbatim>\<open>lastBeepAt\<close>.
\<close>

definition spaced :: "client \<Rightarrow> bool" where
  "spaced s =
     (sorted_wrt (\<lambda>a b. 1200 \<le> b - a) (audible_times s) \<and>
      list_all (\<lambda>t. t \<le> lastBeepAt s) (audible_times s))"

text \<open>The calls of \<^verbatim>\<open>playIcuAlert\<close> made between two states.\<close>

definition new_cues :: "client \<Rightarrow> client \<Rightarrow> cue list" where
  "new_cues s s' = drop (length (alertLog s)) (alertLog s')"

definition requested :: "client \<Rightarrow> client \<Rightarrow> string list" where
  "requested s s' = map cue_kind (new_cues s s')"

text \<open>
  The transition rule in the words of the specification: a cue fires when the level is
  present and differs from the level observed before, for the levels that cue (Medium
  and Critical); a present level becomes the level observed before.
\<close>

fun transition_cues :: "string \<Rightarrow> string list \<Rightarrow> string list" where
  "transition_cues prev [] = []"
| "transition_cues prev (l # ls) =
     (if l \<noteq> [] \<and> l \<noteq> prev
      then (if l = ''Critical'' then [''critical'']
            else if l = ''Medium'' then [''medium''] else []) @ transition_cues l ls
      else transition_cues prev ls)"

text \<open>
  The same rule with the debounce, as the log it should leave: \<open>beep\<close> is the time of
  the last cue that passed the debounce. A cue that is due passes if at least 1200 ms
  have gone by since then, and sounds if synthesis works.
\<close>

fun transition_log :: "string \<Rightarrow> int \<Rightarrow> (string \<times> env) list \<Rightarrow> cue list" where
  "transition_log prev beep [] = []"
| "transition_log prev beep ((l, e) # rest) =
     (if l \<noteq> [] \<and> l \<noteq> prev
      then
        (if l = ''Critical'' \<or> l = ''Medium''
         then
           Cue (if l = ''Critical'' then ''critical'' else ''medium'') (now e)
             (if now e - beep < 1200 then Debounced
              else if audioOk e then tone (if l = ''Critical'' then ''critical'' else ''medium'')
              else SynthFailed) #
           transition_log l (if now e - beep < 1200 then beep else now e) rest
         else transition_log l beep rest)
      else transition_log prev beep rest)"

text \<open>The two arrays of the rolling series hold at most \<open>cap\<close> points and line up.\<close>

definition bounded_buffer :: "nat \<Rightarrow> client \<Rightarrow> bool" where
  "bounded_buffer cap s =
     (length (pulseSeries s) \<le> cap \<and> length (pulseLabels s) = length (pulseSeries s))"

text \<open>Runs of one operation, for the properties of sequences of calls.\<close>

definition evaluations :: "(risk option \<times> env) list \<Rightarrow> client \<Rightarrow> client" where
  "evaluations rs s = foldl (\<lambda>a (r, e). setRiskUI r e a) s rs"

definition pushes :: "(clock \<times> real) list \<Rightarrow> client \<Rightarrow> client" where
  "pushes ps s = foldl (\<lambda>a (t, p). pushPulse t p a) s ps"

definition pushes_backend :: "(clock \<times> real) list \<Rightarrow> client \<Rightarrow> client" where
  "pushes_backend ps s = foldl (\<lambda>a (t, p). pushPulse_backend t p a) s ps"

text \<open>A risk payload with a level and no score, and a moment at which audio works.\<close>

definition at_level :: "string \<Rightarrow> risk option" where
  "at_level l = Some \<lparr>risk_level = Some l, risk_score = None\<rparr>"

definition at_ms :: "int \<Rightarrow> env" where
  "at_ms t = \<lparr>now = t, audioOk = True\<rparr>"

text \<open>A page with nothing in it, for concrete runs.\<close>

definition blank :: client where
  "blank =
     \<lparr>sessionId = '''', storedSessionId = None, lastRiskLevel = '''',
      lastKnownLocation = (0, 0), pulseSeries = [], pulseLabels = [], lastBeepAt = 0,
      alertLog = [],
      pulseAlert = \<lparr>textContent = '''', className = ''''\<rparr>,
      tempAlert = \<lparr>textContent = '''', className = ''''\<rparr>,
      riskView = \<lparr>riskText = '''', riskMeta = 0, classList = [],
                  indicatorBackground = '''', pillBorderColor = '''', pillColor = ''''\<rparr>,
      sosResult = NoBanner, toastText = '''', toastHidden = True,
      polling = False, listening = False\<rparr>"

section \<open>Properties\<close>

subsection \<open>What a call of \<^verbatim>\<open>playIcuAlert\<close> changes\<close>

lemma playIcuAlert_log:
  "alertLog (playIcuAlert kind e s) =
     alertLog s @ [Cue kind (now e)
        (if now e - lastBeepAt s < 1200 then Debounced
         else if audioOk e then tone kind else SynthFailed)]"
  by (simp add: playIcuAlert_def Let_def)

lemma playIcuAlert_lastBeepAt:
  "lastBeepAt (playIcuAlert kind e s) =
     (if now e - lastBeepAt s < 1200 then lastBeepAt s else now e)"
  by (simp add: playIcuAlert_def Let_def)

lemma playIcuAlert_frame:
  "sessionId (playIcuAlert kind e s) = sessionId s"
  "storedSessionId (playIcuAlert kind e s) = storedSessionId s"
  "lastRiskLevel (playIcuAlert kind e s) = lastRiskLevel s"
  "pulseSeries (playIcuAlert kind e s) = pulseSeries s"
  "pulseLabels (playIcuAlert kind e s) = pulseLabels s"
  "riskView (playIcuAlert kind e s) = riskView s"
  "toastText (playIcuAlert kind e s) = toastText s"
  "toastHidden (playIcuAlert kind e s) = toastHidden s"
  "polling (playIcuAlert kind e s) = polling s"
  "sosResult (playIcuAlert kind e s) = sosResult s"
  by (simp_all add: playIcuAlert_def Let_def)

lemma audible_tone: "audible (Cue kind t (tone kind'))"
  by (simp add: tone_def)

subsection \<open>What an evaluation of the risk changes\<close>

lemma setRiskUI_lastRiskLevel:
  "lastRiskLevel (setRiskUI r e s) =
     (if level_of r \<noteq> '''' then level_of r else lastRiskLevel s)"
  by (simp add: setRiskUI_def Let_def playIcuAlert_frame)

lemma setRiskUI_log:
  "alertLog (setRiskUI r e s) =
     (if level_of r \<noteq> '''' \<and> level_of r \<noteq> lastRiskLevel s \<and> level_of r = ''Critical''
      then alertLog (playIcuAlert ''critical'' e s)
      else if level_of r \<noteq> '''' \<and> level_of r \<noteq> lastRiskLevel s \<and> level_of r = ''Medium''
      then alertLog (playIcuAlert ''medium'' e s)
      else alertLog s)"
  by (simp add: setRiskUI_def Let_def playIcuAlert_log playIcuAlert_lastBeepAt)

lemma setRiskUI_lastBeepAt:
  "lastBeepAt (setRiskUI r e s) =
     (if level_of r \<noteq> '''' \<and> level_of r \<noteq> lastRiskLevel s \<and>
         (level_of r = ''Critical'' \<or> level_of r = ''Medium'')
      then lastBeepAt (playIcuAlert ''critical'' e s)
      else lastBeepAt s)"
  by (simp add: setRiskUI_def Let_def playIcuAlert_lastBeepAt)

lemma setRiskUI_frame:
  "sessionId (setRiskUI r e s) = sessionId s"
  "storedSessionId (setRiskUI r e s) = storedSessionId s"
  "pulseSeries (setRiskUI r e s) = pulseSeries s"
  "pulseLabels (setRiskUI r e s) = pulseLabels s"
  "toastText (setRiskUI r e s) = toastText s"
  "toastHidden (setRiskUI r e s) = toastHidden s"
  "polling (setRiskUI r e s) = polling s"
  by (simp_all add: setRiskUI_def Let_def playIcuAlert_frame)

lemma setRiskUI_requested:
  "requested s (setRiskUI r e s) =
     (if level_of r \<noteq> '''' \<and> level_of r \<noteq> lastRiskLevel s
      then (if level_of r = ''Critical'' then [''critical'']
            else if level_of r = ''Medium'' then [''medium''] else [])
      else [])"
  by (simp add: requested_def new_cues_def setRiskUI_log playIcuAlert_log)

lemma setRiskUI_extends:
  "alertLog (setRiskUI r e s) = alertLog s @ new_cues s (setRiskUI r e s)"
  by (simp add: new_cues_def setRiskUI_log playIcuAlert_log)

lemma evaluations_Cons:
  "evaluations ((r, e) # rs) s = evaluations rs (setRiskUI r e s)"
  by (simp add: evaluations_def)

lemma evaluations_extends:
  "\<exists>cs. alertLog (evaluations rs s) = alertLog s @ cs"
proof (induction rs arbitrary: s)
  case Nil
  show ?case by (simp add: evaluations_def)
next
  case (Cons x rs)
  obtain r e where x: "x = (r, e)" by (cases x)
  from Cons.IH [of "setRiskUI r e s"] obtain cs
    where "alertLog (evaluations rs (setRiskUI r e s)) = alertLog (setRiskUI r e s) @ cs" ..
  then have "alertLog (evaluations (x # rs) s) = alertLog s @ (new_cues s (setRiskUI r e s) @ cs)"
    using setRiskUI_extends [of r e s] by (simp add: x evaluations_Cons)
  then show ?case ..
qed

lemma requested_trans:
  assumes "alertLog s1 = alertLog s @ cs" and "alertLog s2 = alertLog s1 @ ds"
  shows "requested s s2 = requested s s1 @ requested s1 s2"
  using assms by (simp add: requested_def new_cues_def)

lemma evaluations_requested:
  "requested s (evaluations rs s) =
     transition_cues (lastRiskLevel s) (map (\<lambda>x. level_of (fst x)) rs)"
proof (induction rs arbitrary: s)
  case Nil
  show ?case by (simp add: evaluations_def requested_def new_cues_def)
next
  case (Cons x rs)
  obtain r e where x: "x = (r, e)" by (cases x)
  let ?s1 = "setRiskUI r e s"
  obtain ds where ds: "alertLog (evaluations rs ?s1) = alertLog ?s1 @ ds"
    using evaluations_extends by blast
  have "requested s (evaluations rs ?s1) = requested s ?s1 @ requested ?s1 (evaluations rs ?s1)"
    using setRiskUI_extends ds by (rule requested_trans)
  also have "requested ?s1 (evaluations rs ?s1) =
      transition_cues (lastRiskLevel ?s1) (map (\<lambda>x. level_of (fst x)) rs)"
    by (rule Cons.IH)
  finally show ?case
    by (simp add: x evaluations_Cons setRiskUI_requested setRiskUI_lastRiskLevel)
qed

lemma setRiskUI_new_cues:
  "new_cues s (setRiskUI r e s) =
     (if level_of r \<noteq> '''' \<and> level_of r \<noteq> lastRiskLevel s \<and>
         (level_of r = ''Critical'' \<or> level_of r = ''Medium'')
      then [Cue (if level_of r = ''Critical'' then ''critical'' else ''medium'') (now e)
              (if now e - lastBeepAt s < 1200 then Debounced
               else if audioOk e
                    then tone (if level_of r = ''Critical'' then ''critical'' else ''medium'')
                    else SynthFailed)]
      else [])"
  by (auto simp add: new_cues_def setRiskUI_log playIcuAlert_log)

lemma setRiskUI_lastBeepAt_window:
  "lastBeepAt (setRiskUI r e s) =
     (if level_of r \<noteq> '''' \<and> level_of r \<noteq> lastRiskLevel s \<and>
         (level_of r = ''Critical'' \<or> level_of r = ''Medium'')
      then (if now e - lastBeepAt s < 1200 then lastBeepAt s else now e)
      else lastBeepAt s)"
  by (simp add: setRiskUI_lastBeepAt playIcuAlert_lastBeepAt)

lemma new_cues_trans:
  assumes "alertLog s1 = alertLog s @ cs" and "alertLog s2 = alertLog s1 @ ds"
  shows "new_cues s s2 = new_cues s s1 @ new_cues s1 s2"
  using assms by (simp add: new_cues_def)

lemma evaluations_log:
  "new_cues s (evaluations rs s) =
     transition_log (lastRiskLevel s) (lastBeepAt s) (map (\<lambda>x. (level_of (fst x), snd x)) rs)"
proof (induction rs arbitrary: s)
  case Nil
  show ?case by (simp add: evaluations_def new_cues_def)
next
  case (Cons x rs)
  obtain r e where x: "x = (r, e)" by (cases x)
  let ?s1 = "setRiskUI r e s"
  obtain ds where ds: "alertLog (evaluations rs ?s1) = alertLog ?s1 @ ds"
    using evaluations_extends by blast
  have "new_cues s (evaluations rs ?s1) = new_cues s ?s1 @ new_cues ?s1 (evaluations rs ?s1)"
    using setRiskUI_extends ds by (rule new_cues_trans)
  also have "new_cues ?s1 (evaluations rs ?s1) =
      transition_log (lastRiskLevel ?s1) (lastBeepAt ?s1)
        (map (\<lambda>x. (level_of (fst x), snd x)) rs)"
    by (rule Cons.IH)
  finally show ?case
    by (simp add: x evaluations_Cons setRiskUI_new_cues setRiskUI_lastRiskLevel
        setRiskUI_lastBeepAt_window)
qed

subsection \<open>Functions that leave the cue state alone\<close>

lemma applyAlerts_frame:
  "alertLog (applyAlerts v s) = alertLog s"
  "lastBeepAt (applyAlerts v s) = lastBeepAt s"
  "sessionId (applyAlerts v s) = sessionId s"
  "storedSessionId (applyAlerts v s) = storedSessionId s"
  "pulseSeries (applyAlerts v s) = pulseSeries s"
  "pulseLabels (applyAlerts v s) = pulseLabels s"
  "lastRiskLevel (applyAlerts v s) = lastRiskLevel s"
  by (simp_all add: applyAlerts_def Let_def)

lemma pushPulse_frame:
  "alertLog (pushPulse t p s) = alertLog s"
  "lastBeepAt (pushPulse t p s) = lastBeepAt s"
  "sessionId (pushPulse t p s) = sessionId s"
  "storedSessionId (pushPulse t p s) = storedSessionId s"
  "lastRiskLevel (pushPulse t p s) = lastRiskLevel s"
  by (simp_all add: pushPulse_def Let_def)

lemma setToast_frame:
  "alertLog (setToast text s) = alertLog s"
  "lastBeepAt (setToast text s) = lastBeepAt s"
  "sessionId (setToast text s) = sessionId s"
  "storedSessionId (setToast text s) = storedSessionId s"
  "pulseSeries (setToast text s) = pulseSeries s"
  "pulseLabels (setToast text s) = pulseLabels s"
  "lastRiskLevel (setToast text s) = lastRiskLevel s"
  "polling (setToast text s) = polling s"
  "listening (setToast text s) = listening s"
  by (simp_all add: setToast_def)

lemma adopt_frame:
  "alertLog (adopt sid s) = alertLog s"
  "lastBeepAt (adopt sid s) = lastBeepAt s"
  "pulseSeries (adopt sid s) = pulseSeries s"
  "pulseLabels (adopt sid s) = pulseLabels s"
  "lastRiskLevel (adopt sid s) = lastRiskLevel s"
  "sessionId (adopt sid s) = sid"
  "storedSessionId (adopt sid s) = Some sid"
  by (simp_all add: adopt_def)

lemma spaced_cong:
  "alertLog s' = alertLog s \<Longrightarrow> lastBeepAt s' = lastBeepAt s \<Longrightarrow> spaced s' = spaced s"
  by (simp add: spaced_def audible_times_def)

subsection \<open>The debounce invariant\<close>

lemma spaced_playIcuAlert:
  assumes "spaced s"
  shows "spaced (playIcuAlert kind e s)"
proof (cases "now e - lastBeepAt s < 1200")
  case True
  then have "audible_times (playIcuAlert kind e s) = audible_times s"
    by (simp add: audible_times_def playIcuAlert_log)
  with True assms show ?thesis
    by (simp add: spaced_def playIcuAlert_lastBeepAt)
next
  case late: False
  have old: "\<forall>u \<in> set (audible_times s). u \<le> lastBeepAt s"
    using assms by (simp add: spaced_def list_all_iff)
  then have gap: "\<forall>u \<in> set (audible_times s). 1200 \<le> now e - u"
    using late by fastforce
  show ?thesis
  proof (cases "audioOk e")
    case True
    then have "audible_times (playIcuAlert kind e s) = audible_times s @ [now e]"
      using late by (simp add: audible_times_def playIcuAlert_log audible_tone)
    then show ?thesis
      using assms late gap
      by (auto simp add: spaced_def playIcuAlert_lastBeepAt sorted_wrt_append list_all_iff)
  next
    case False
    then have "audible_times (playIcuAlert kind e s) = audible_times s"
      using late by (simp add: audible_times_def playIcuAlert_log)
    then show ?thesis
      using assms late gap
      by (auto simp add: spaced_def playIcuAlert_lastBeepAt list_all_iff)
  qed
qed

lemma spaced_setRiskUI:
  assumes "spaced s"
  shows "spaced (setRiskUI r e s)"
proof -
  let ?go = "level_of r \<noteq> '''' \<and> level_of r \<noteq> lastRiskLevel s"
  show ?thesis
  proof (cases "?go \<and> level_of r = ''Critical''")
    case True
    then have "alertLog (setRiskUI r e s) = alertLog (playIcuAlert ''critical'' e s)"
      by (auto simp add: setRiskUI_log)
    moreover have "lastBeepAt (setRiskUI r e s) = lastBeepAt (playIcuAlert ''critical'' e s)"
      using True by (auto simp add: setRiskUI_lastBeepAt)
    ultimately have "spaced (setRiskUI r e s) = spaced (playIcuAlert ''critical'' e s)"
      by (rule spaced_cong)
    then show ?thesis using spaced_playIcuAlert [OF assms] by simp
  next
    case not_critical: False
    show ?thesis
    proof (cases "?go \<and> level_of r = ''Medium''")
      case True
      then have "alertLog (setRiskUI r e s) = alertLog (playIcuAlert ''medium'' e s)"
        by (auto simp add: setRiskUI_log)
      moreover have "lastBeepAt (setRiskUI r e s) = lastBeepAt (playIcuAlert ''medium'' e s)"
        using True by (auto simp add: setRiskUI_lastBeepAt playIcuAlert_lastBeepAt)
      ultimately have "spaced (setRiskUI r e s) = spaced (playIcuAlert ''medium'' e s)"
        by (rule spaced_cong)
      then show ?thesis using spaced_playIcuAlert [OF assms] by simp
    next
      case False
      with not_critical have "alertLog (setRiskUI r e s) = alertLog s"
        by (auto simp add: setRiskUI_log)
      moreover have "lastBeepAt (setRiskUI r e s) = lastBeepAt s"
        using False not_critical by (auto simp add: setRiskUI_lastBeepAt)
      ultimately have "spaced (setRiskUI r e s) = spaced s"
        by (rule spaced_cong)
      then show ?thesis using assms by simp
    qed
  qed
qed

lemma spaced_frame:
  "spaced (applyAlerts v s) = spaced s"
  "spaced (pushPulse t p s) = spaced s"
  "spaced (setToast text s) = spaced s"
  "spaced (adopt sid s) = spaced s"
  "spaced (s\<lparr>sosResult := b\<rparr>) = spaced s"
  "spaced (s\<lparr>lastKnownLocation := l\<rparr>) = spaced s"
  "spaced (s\<lparr>polling := x, listening := y\<rparr>) = spaced s"
  by (rule spaced_cong;
      simp add: applyAlerts_frame pushPulse_frame setToast_frame adopt_frame)+

lemma spaced_refreshVitals:
  assumes "spaced s" and "refreshVitals_response resp t e s = Inr s'"
  shows "spaced s'"
proof (cases resp)
  case (Inl msg)
  with assms(2) show ?thesis by (simp add: refreshVitals_response_def)
next
  case (Inr data)
  define a where "a = pushPulse t (pulse_bpm (vitals_data.vitals data))
      (applyAlerts (vitals_data.vitals data) (adopt (vitals_data.session_id data) s))"
  have "spaced a"
    using assms(1) by (simp add: a_def spaced_frame)
  moreover obtain r where "s' = setRiskUI r e a"
    using assms(2) Inr by (auto simp add: refreshVitals_response_def Let_def a_def)
  ultimately show ?thesis by (simp add: spaced_setRiskUI)
qed

lemma spaced_poll: "spaced s \<Longrightarrow> spaced (poll resp t e s)"
  unfolding poll_def
  by (cases "refreshVitals_response resp t e s") (simp_all add: spaced_refreshVitals)

lemma spaced_sendChat_apply:
  assumes "spaced s"
  shows "spaced (sendChat_apply data t e1 e2 s)"
proof -
  define s1 where "s1 = (case chat_data.vitals data of None \<Rightarrow> s
      | Some v \<Rightarrow> pushPulse t (pulse_bpm v) (applyAlerts v s))"
  define s2 where "s2 = (case chat_data.risk data of None \<Rightarrow> s1
      | Some r \<Rightarrow> setRiskUI (Some r) e1 s1)"
  have "spaced s1"
    using assms by (simp add: s1_def spaced_frame split: option.split)
  then have "spaced s2"
    by (simp add: s2_def spaced_setRiskUI split: option.split)
  moreover have "sendChat_apply data t e1 e2 s =
      (case chat_data.auto_emergency data of
         None \<Rightarrow> s2
       | Some a \<Rightarrow>
           (if enabled a
            then (case auto_emergency.nearest_hospital a of
                    None \<Rightarrow> s2
                  | Some h \<Rightarrow> playIcuAlert ''critical'' e2 (s2\<lparr>sosResult := AutoEmergency h\<rparr>))
            else s2))"
    unfolding sendChat_apply_def Let_def s2_def s1_def ..
  ultimately show ?thesis
    by (simp add: spaced_playIcuAlert spaced_frame split: option.split)
qed

lemma spaced_sos_response: "spaced s \<Longrightarrow> spaced (sos_response resp e s)"
  by (cases resp)
     (simp_all add: sos_response_def Let_def spaced_frame spaced_playIcuAlert)

lemma spaced_step: "spaced s \<Longrightarrow> spaced (step s ev)"
proof (cases ev)
  case (ChatSubmit message)
  then show "spaced s \<Longrightarrow> spaced (step s ev)"
    by (simp add: sendChat_request_def Let_def spaced_frame)
next
  case (ChatResponse resp)
  then show "spaced s \<Longrightarrow> spaced (step s ev)"
    by (cases resp) (simp_all add: sendChat_response_def spaced_frame)
qed (simp_all add: spaced_poll spaced_sendChat_apply spaced_sos_response spaced_frame
      sos_begin_def sos_request_def Let_def)

lemma spaced_run: "spaced s \<Longrightarrow> spaced (run evs s)"
  unfolding run_def by (induction evs arbitrary: s) (simp_all add: spaced_step)

lemma spaced_load: "spaced (load stored center page)"
  by (simp add: spaced_def audible_times_def load_def)

lemma spaced_boot:
  assumes "spaced s"
  shows "spaced (boot hospitals position center resp t e s)"
proof (cases hospitals)
  case (Inl msg)
  then show ?thesis using assms by (simp add: boot_def spaced_frame)
next
  case (Inr u)
  let ?s1 = "s\<lparr>lastKnownLocation := getGeo position center\<rparr>"
  have s1: "spaced ?s1" using assms by (simp add: spaced_frame)
  show ?thesis
  proof (cases "refreshVitals_response resp t e ?s1")
    case (Inl msg)
    then show ?thesis using Inr s1 by (simp add: boot_def Let_def spaced_frame)
  next
    case ok: (Inr s2)
    from s1 ok have "spaced s2" by (rule spaced_refreshVitals)
    then show ?thesis using Inr ok by (simp add: boot_def Let_def spaced_frame)
  qed
qed

subsection \<open>The eviction loop\<close>

lemma evict_drop:
  "evict m (xs, ls) = (drop (length xs - m) xs, drop (length xs - m) ls)"
proof (induction "length xs - m" arbitrary: xs ls)
  case 0
  then show ?case by (simp add: evict.simps)
next
  case (Suc k)
  then have more: "m < length xs" and k: "k = length (tl xs) - m"
    by simp_all
  have "evict m (xs, ls) = evict m (tl xs, tl ls)"
    using more by (simp add: evict.simps)
  also have "\<dots> = (drop k (tl xs), drop k (tl ls))"
    using Suc.hyps(1) [OF k] k by simp
  also have "\<dots> = (drop (Suc k) xs, drop (Suc k) ls)"
    by (simp add: drop_Suc)
  finally show ?case using Suc.hyps(2) by simp
qed

lemma drop_window:
  "drop (length (drop (length xs - m) xs @ [x]) - m) (drop (length xs - m) xs @ [x]) =
   drop (length (xs @ [x]) - m) (xs @ [x])"
proof (cases "length xs \<le> m")
  case True
  then show ?thesis by simp
next
  case False
  then have "length (drop (length xs - m) xs) = m" by simp
  then show ?thesis using False by (simp add: Suc_diff_le)
qed

lemma pushPulse_series:
  "pulseSeries (pushPulse t p s) =
     drop (Suc (length (pulseSeries s)) - 60) (pulseSeries s @ [p])"
  by (simp add: pushPulse_def Let_def evict_drop)

lemma pushPulse_labels:
  "pulseLabels (pushPulse t p s) =
     drop (Suc (length (pulseSeries s)) - 60) (pulseLabels s @ [timeLabel t])"
  by (simp add: pushPulse_def Let_def evict_drop)

lemma pushPulse_backend_series:
  "pulseSeries (pushPulse_backend t p s) =
     drop (Suc (length (pulseSeries s)) - 30) (pulseSeries s @ [p])"
  by (simp add: pushPulse_backend_def Let_def evict_drop)

lemma pushPulse_backend_labels:
  "pulseLabels (pushPulse_backend t p s) =
     drop (Suc (length (pulseSeries s)) - 30) (pulseLabels s @ [timeLabel t])"
  by (simp add: pushPulse_backend_def Let_def evict_drop)

lemma pushes_snoc: "pushes (ps @ [(t, p)]) s = pushPulse t p (pushes ps s)"
  by (simp add: pushes_def)

lemma pushes_backend_snoc:
  "pushes_backend (ps @ [(t, p)]) s = pushPulse_backend t p (pushes_backend ps s)"
  by (simp add: pushes_backend_def)

lemma pushes_window:
  assumes "pulseSeries s = []" and "pulseLabels s = []"
  shows "pulseSeries (pushes ps s) = drop (length ps - 60) (map snd ps) \<and>
         pulseLabels (pushes ps s) = drop (length ps - 60) (map (\<lambda>x. timeLabel (fst x)) ps)"
proof (induction ps rule: rev_induct)
  case Nil
  show ?case using assms by (simp add: pushes_def)
next
  case (snoc x ps)
  obtain t p where x: "x = (t, p)" by (cases x)
  let ?vs = "map snd ps" and ?ls = "map (\<lambda>x. timeLabel (fst x)) ps"
  have "pulseSeries (pushes (ps @ [x]) s) =
      drop (length (drop (length ?vs - 60) ?vs @ [p]) - 60) (drop (length ?vs - 60) ?vs @ [p])"
    using snoc by (simp add: x pushes_snoc pushPulse_series)
  also have "\<dots> = drop (length (?vs @ [p]) - 60) (?vs @ [p])"
    by (rule drop_window)
  finally have series: "pulseSeries (pushes (ps @ [x]) s) =
      drop (length (ps @ [x]) - 60) (map snd (ps @ [x]))"
    by (simp add: x)
  have "pulseLabels (pushes (ps @ [x]) s) =
      drop (length (drop (length ?ls - 60) ?ls @ [timeLabel t]) - 60)
        (drop (length ?ls - 60) ?ls @ [timeLabel t])"
    using snoc by (simp add: x pushes_snoc pushPulse_labels)
  also have "\<dots> = drop (length (?ls @ [timeLabel t]) - 60) (?ls @ [timeLabel t])"
    by (rule drop_window)
  finally have "pulseLabels (pushes (ps @ [x]) s) =
      drop (length (ps @ [x]) - 60) (map (\<lambda>x. timeLabel (fst x)) (ps @ [x]))"
    by (simp add: x)
  with series show ?case by simp
qed

lemma pushes_backend_window:
  assumes "pulseSeries s = []" and "pulseLabels s = []"
  shows "pulseSeries (pushes_backend ps s) = drop (length ps - 30) (map snd ps) \<and>
         pulseLabels (pushes_backend ps s) =
           drop (length ps - 30) (map (\<lambda>x. timeLabel (fst x)) ps)"
proof (induction ps rule: rev_induct)
  case Nil
  show ?case using assms by (simp add: pushes_backend_def)
next
  case (snoc x ps)
  obtain t p where x: "x = (t, p)" by (cases x)
  let ?vs = "map snd ps" and ?ls = "map (\<lambda>x. timeLabel (fst x)) ps"
  have "pulseSeries (pushes_backend (ps @ [x]) s) =
      drop (length (drop (length ?vs - 30) ?vs @ [p]) - 30) (drop (length ?vs - 30) ?vs @ [p])"
    using snoc by (simp add: x pushes_backend_snoc pushPulse_backend_series)
  also have "\<dots> = drop (length (?vs @ [p]) - 30) (?vs @ [p])"
    by (rule drop_window)
  finally have series: "pulseSeries (pushes_backend (ps @ [x]) s) =
      drop (length (ps @ [x]) - 30) (map snd (ps @ [x]))"
    by (simp add: x)
  have "pulseLabels (pushes_backend (ps @ [x]) s) =
      drop (length (drop (length ?ls - 30) ?ls @ [timeLabel t]) - 30)
        (drop (length ?ls - 30) ?ls @ [timeLabel t])"
    using snoc by (simp add: x pushes_backend_snoc pushPulse_backend_labels)
  also have "\<dots> = drop (length (?ls @ [timeLabel t]) - 30) (?ls @ [timeLabel t])"
    by (rule drop_window)
  finally have "pulseLabels (pushes_backend (ps @ [x]) s) =
      drop (length (ps @ [x]) - 30) (map (\<lambda>x. timeLabel (fst x)) (ps @ [x]))"
    by (simp add: x)
  with series show ?case by simp
qed

subsection \<open>The rolling series in the running client\<close>

lemma bounded_cong:
  "pulseSeries s' = pulseSeries s \<Longrightarrow> pulseLabels s' = pulseLabels s \<Longrightarrow>
   bounded_buffer cap s' = bounded_buffer cap s"
  by (simp add: bounded_buffer_def)

lemma bounded_pushPulse: "bounded_buffer 60 s \<Longrightarrow> bounded_buffer 60 (pushPulse t p s)"
  by (simp add: bounded_buffer_def pushPulse_series pushPulse_labels)

lemma bounded_frame:
  "bounded_buffer cap (applyAlerts v s) = bounded_buffer cap s"
  "bounded_buffer cap (setRiskUI r e s) = bounded_buffer cap s"
  "bounded_buffer cap (playIcuAlert kind e s) = bounded_buffer cap s"
  "bounded_buffer cap (setToast msg s) = bounded_buffer cap s"
  "bounded_buffer cap (adopt sid s) = bounded_buffer cap s"
  "bounded_buffer cap (s\<lparr>sosResult := b\<rparr>) = bounded_buffer cap s"
  "bounded_buffer cap (s\<lparr>lastKnownLocation := l\<rparr>) = bounded_buffer cap s"
  "bounded_buffer cap (s\<lparr>polling := x, listening := y\<rparr>) = bounded_buffer cap s"
  by (rule bounded_cong;
      simp add: applyAlerts_frame setRiskUI_frame playIcuAlert_frame setToast_frame
        adopt_frame)+

lemma bounded_refreshVitals:
  assumes "bounded_buffer 60 s" and "refreshVitals_response resp t e s = Inr s'"
  shows "bounded_buffer 60 s'"
proof (cases resp)
  case (Inl msg)
  with assms(2) show ?thesis by (simp add: refreshVitals_response_def)
next
  case (Inr data)
  then show ?thesis
    using assms
    by (auto simp add: refreshVitals_response_def Let_def bounded_frame
        intro!: bounded_pushPulse)
qed

lemma bounded_poll: "bounded_buffer 60 s \<Longrightarrow> bounded_buffer 60 (poll resp t e s)"
  unfolding poll_def
  by (cases "refreshVitals_response resp t e s") (simp_all add: bounded_refreshVitals)

lemma bounded_sendChat_apply:
  "bounded_buffer 60 s \<Longrightarrow> bounded_buffer 60 (sendChat_apply data t e1 e2 s)"
  by (simp add: sendChat_apply_def Let_def bounded_frame bounded_pushPulse
      split: option.split)

lemma bounded_sos_response:
  "bounded_buffer 60 s \<Longrightarrow> bounded_buffer 60 (sos_response resp e s)"
  by (cases resp) (simp_all add: sos_response_def Let_def bounded_frame)

lemma bounded_step: "bounded_buffer 60 s \<Longrightarrow> bounded_buffer 60 (step s ev)"
proof (cases ev)
  case (ChatSubmit message)
  then show "bounded_buffer 60 s \<Longrightarrow> bounded_buffer 60 (step s ev)"
    by (simp add: sendChat_request_def Let_def bounded_frame)
next
  case (ChatResponse resp)
  then show "bounded_buffer 60 s \<Longrightarrow> bounded_buffer 60 (step s ev)"
    by (cases resp) (simp_all add: sendChat_response_def bounded_frame)
qed (simp_all add: bounded_poll bounded_sendChat_apply bounded_sos_response bounded_frame
      sos_begin_def sos_request_def Let_def)

lemma bounded_run: "bounded_buffer 60 s \<Longrightarrow> bounded_buffer 60 (run evs s)"
  unfolding run_def by (induction evs arbitrary: s) (simp_all add: bounded_step)

lemma bounded_load: "bounded_buffer cap (load stored center page)"
  by (simp add: bounded_buffer_def load_def)

lemma bounded_boot:
  assumes "bounded_buffer 60 s"
  shows "bounded_buffer 60 (boot hospitals position center resp t e s)"
proof (cases hospitals)
  case (Inl msg)
  then show ?thesis using assms by (simp add: boot_def bounded_frame)
next
  case (Inr u)
  let ?s1 = "s\<lparr>lastKnownLocation := getGeo position center\<rparr>"
  have s1: "bounded_buffer 60 ?s1" using assms by (simp add: bounded_frame)
  show ?thesis
  proof (cases "refreshVitals_response resp t e ?s1")
    case (Inl msg)
    then show ?thesis using Inr s1 by (simp add: boot_def Let_def bounded_frame)
  next
    case ok: (Inr s2)
    from s1 ok have "bounded_buffer 60 s2" by (rule bounded_refreshVitals)
    then show ?thesis using Inr ok by (simp add: boot_def Let_def bounded_frame)
  qed
qed

subsection \<open>The session identifier in the running client\<close>

lemma sessionId_poll:
  "sessionId (poll resp t e s) =
     (case resp of Inl msg \<Rightarrow> sessionId s | Inr data \<Rightarrow> vitals_data.session_id data)"
  "storedSessionId (poll resp t e s) =
     (case resp of Inl msg \<Rightarrow> storedSessionId s
      | Inr data \<Rightarrow> Some (vitals_data.session_id data))"
  by (cases resp;
      simp add: poll_def refreshVitals_response_def Let_def setRiskUI_frame pushPulse_frame
        applyAlerts_frame adopt_frame)+

lemma sessionId_sendChat_apply:
  "sessionId (sendChat_apply data t e1 e2 s) = sessionId s"
  "storedSessionId (sendChat_apply data t e1 e2 s) = storedSessionId s"
  by (simp_all add: sendChat_apply_def Let_def setRiskUI_frame pushPulse_frame
      applyAlerts_frame playIcuAlert_frame split: option.split)

lemma sessionId_sos_response:
  "sessionId (sos_response resp e s) =
     (case resp of Inl msg \<Rightarrow> sessionId s | Inr data \<Rightarrow> sos_data.session_id data)"
  "storedSessionId (sos_response resp e s) =
     (case resp of Inl msg \<Rightarrow> storedSessionId s
      | Inr data \<Rightarrow> Some (sos_data.session_id data))"
  by (cases resp;
      simp add: sos_response_def Let_def playIcuAlert_frame setToast_frame adopt_frame)+

lemma sessionId_step:
  "sessionId (step s ev) = (case issued ev of None \<Rightarrow> sessionId s | Some sid \<Rightarrow> sid)"
proof (cases ev)
  case (PollDone resp t e)
  then show ?thesis by (cases resp) (simp_all add: sessionId_poll)
next
  case (ChatSubmit message)
  then show ?thesis by (simp add: sendChat_request_def Let_def setToast_frame)
next
  case (ChatResponse resp)
  then show ?thesis
    by (cases resp) (simp_all add: sendChat_response_def setToast_frame adopt_frame)
next
  case (SosResponse resp e)
  then show ?thesis by (cases resp) (simp_all add: sessionId_sos_response)
qed (simp_all add: sessionId_sendChat_apply sos_begin_def sos_request_def setToast_frame
      Let_def)

lemma storedSessionId_step:
  "storedSessionId (step s ev) =
     (case issued ev of None \<Rightarrow> storedSessionId s | Some sid \<Rightarrow> Some sid)"
proof (cases ev)
  case (PollDone resp t e)
  then show ?thesis by (cases resp) (simp_all add: sessionId_poll)
next
  case (ChatSubmit message)
  then show ?thesis by (simp add: sendChat_request_def Let_def setToast_frame)
next
  case (ChatResponse resp)
  then show ?thesis
    by (cases resp) (simp_all add: sendChat_response_def setToast_frame adopt_frame)
next
  case (SosResponse resp e)
  then show ?thesis by (cases resp) (simp_all add: sessionId_sos_response)
qed (simp_all add: sessionId_sendChat_apply sos_begin_def sos_request_def setToast_frame
      Let_def)

lemma sessionId_run:
  "sessionId (run evs s) = last (sessionId s # List.map_filter issued evs)"
proof (induction evs arbitrary: s)
  case Nil
  show ?case by (simp add: run_def)
next
  case (Cons ev evs)
  have "sessionId (run (ev # evs) s) = last (sessionId (step s ev) # List.map_filter issued evs)"
    using Cons [of "step s ev"] by (simp add: run_def)
  then show ?case
    by (cases "issued ev") (simp_all add: sessionId_step)
qed

lemma attached_sent:
  "sessionId s \<noteq> '''' \<Longrightarrow> sent s ev = Some req \<Longrightarrow> attached req = Some (sessionId s)"
  by (cases ev)
     (auto simp add: refreshVitals_request_def sendChat_request_def sos_request_def Let_def
        setToast_frame split: if_splits)

subsection \<open>Cues on risk transitions\<close>

text \<open>
  Claim C1. In every state, an evaluation of \<^verbatim>\<open>setRiskUI\<close> produces an audible cue only
  if the incoming level is present and differs from the remembered one. The first
  transition to Low makes no call of \<^verbatim>\<open>playIcuAlert\<close>; Low to Medium makes exactly one,
  of kind medium, and any transition to Critical exactly one, of kind critical, each
  with the outcome the debounce gives it: it sounds when at least 1200 ms have passed
  since \<^verbatim>\<open>lastBeepAt\<close> and synthesis works. A repeated level makes no call. Over any
  sequence of evaluations the calls and their outcomes are those of the transition
  rule, and the evaluations Low, Critical, Critical, Medium cue on the first and the
  third transition only.
\<close>

theorem setRiskUI_transition_cues:
  "((\<exists>c \<in> set (new_cues s (setRiskUI r e s)). audible c) \<longrightarrow>
      level_of r \<noteq> '''' \<and> level_of r \<noteq> lastRiskLevel s) \<and>
   (lastRiskLevel s = '''' \<and> level_of r = ''Low'' \<longrightarrow>
      new_cues s (setRiskUI r e s) = []) \<and>
   (lastRiskLevel s = ''Low'' \<and> level_of r = ''Medium'' \<longrightarrow>
      new_cues s (setRiskUI r e s) =
        [Cue ''medium'' (now e)
           (if now e - lastBeepAt s < 1200 then Debounced
            else if audioOk e then tone ''medium'' else SynthFailed)]) \<and>
   (lastRiskLevel s \<noteq> ''Critical'' \<and> level_of r = ''Critical'' \<longrightarrow>
      new_cues s (setRiskUI r e s) =
        [Cue ''critical'' (now e)
           (if now e - lastBeepAt s < 1200 then Debounced
            else if audioOk e then tone ''critical'' else SynthFailed)]) \<and>
   (level_of r = lastRiskLevel s \<longrightarrow> new_cues s (setRiskUI r e s) = []) \<and>
   requested s (evaluations rs s) =
     transition_cues (lastRiskLevel s) (map (\<lambda>x. level_of (fst x)) rs) \<and>
   new_cues s (evaluations rs s) =
     transition_log (lastRiskLevel s) (lastBeepAt s)
       (map (\<lambda>x. (level_of (fst x), snd x)) rs) \<and>
   (let s1 = setRiskUI (at_level ''Low'') e1 s;
        s2 = setRiskUI (at_level ''Critical'') e2 s1;
        s3 = setRiskUI (at_level ''Critical'') e3 s2;
        s4 = setRiskUI (at_level ''Medium'') e4 s3
    in new_cues s s1 = [] \<and>
       new_cues s1 s2 =
         [Cue ''critical'' (now e2)
            (if now e2 - lastBeepAt s < 1200 then Debounced
             else if audioOk e2 then tone ''critical'' else SynthFailed)] \<and>
       lastBeepAt s2 = (if now e2 - lastBeepAt s < 1200 then lastBeepAt s else now e2) \<and>
       new_cues s2 s3 = [] \<and>
       new_cues s3 s4 =
         [Cue ''medium'' (now e4)
            (if now e4 - lastBeepAt s2 < 1200 then Debounced
             else if audioOk e4 then tone ''medium'' else SynthFailed)])"
proof -
  have only_when: "(\<exists>c \<in> set (new_cues s (setRiskUI r e s)). audible c) \<longrightarrow>
      level_of r \<noteq> '''' \<and> level_of r \<noteq> lastRiskLevel s"
    by (auto simp add: setRiskUI_new_cues split: if_splits)
  have lv: "level_of (at_level l) = l" for l
    by (simp add: at_level_def level_of_def)
  have four: "let s1 = setRiskUI (at_level ''Low'') e1 s;
        s2 = setRiskUI (at_level ''Critical'') e2 s1;
        s3 = setRiskUI (at_level ''Critical'') e3 s2;
        s4 = setRiskUI (at_level ''Medium'') e4 s3
    in new_cues s s1 = [] \<and>
       new_cues s1 s2 =
         [Cue ''critical'' (now e2)
            (if now e2 - lastBeepAt s < 1200 then Debounced
             else if audioOk e2 then tone ''critical'' else SynthFailed)] \<and>
       lastBeepAt s2 = (if now e2 - lastBeepAt s < 1200 then lastBeepAt s else now e2) \<and>
       new_cues s2 s3 = [] \<and>
       new_cues s3 s4 =
         [Cue ''medium'' (now e4)
            (if now e4 - lastBeepAt s2 < 1200 then Debounced
             else if audioOk e4 then tone ''medium'' else SynthFailed)]"
    by (simp add: Let_def setRiskUI_new_cues setRiskUI_lastRiskLevel
        setRiskUI_lastBeepAt_window lv)
  show ?thesis
    using only_when four
    by (simp add: setRiskUI_new_cues evaluations_requested evaluations_log)
qed

theorem setRiskUI_transition_cues_witness:
  "lastRiskLevel (load None (0, 0) blank) = '''' \<and> level_of (at_level ''Low'') = ''Low'' \<and>
   new_cues (load None (0, 0) blank)
     (setRiskUI (at_level ''Low'') (at_ms 5000) (load None (0, 0) blank)) = [] \<and>
   lastRiskLevel (setRiskUI (at_level ''Low'') (at_ms 5000) (load None (0, 0) blank)) = ''Low'' \<and>
   level_of (at_level ''Medium'') = ''Medium'' \<and>
   new_cues (setRiskUI (at_level ''Low'') (at_ms 5000) (load None (0, 0) blank))
     (setRiskUI (at_level ''Medium'') (at_ms 6000)
        (setRiskUI (at_level ''Low'') (at_ms 5000) (load None (0, 0) blank))) =
     [Cue ''medium'' 6000 (Sounded 660 200)] \<and>
   (\<exists>c \<in> set (new_cues (setRiskUI (at_level ''Low'') (at_ms 5000) (load None (0, 0) blank))
        (setRiskUI (at_level ''Medium'') (at_ms 6000)
          (setRiskUI (at_level ''Low'') (at_ms 5000) (load None (0, 0) blank)))). audible c) \<and>
   lastRiskLevel (load None (0, 0) blank) \<noteq> ''Critical'' \<and>
   level_of (at_level ''Critical'') = ''Critical'' \<and>
   new_cues (load None (0, 0) blank)
     (setRiskUI (at_level ''Critical'') (at_ms 5000) (load None (0, 0) blank)) =
     [Cue ''critical'' 5000 (Sounded 880 300)] \<and>
   level_of None = lastRiskLevel (load None (0, 0) blank) \<and>
   new_cues (load None (0, 0) blank) (setRiskUI None (at_ms 5000) (load None (0, 0) blank)) = []"
proof -
  let ?s = "load None (0, 0) blank"
  let ?s1 = "setRiskUI (at_level ''Low'') (at_ms 5000) ?s"
  have lv: "level_of (at_level l) = l" for l
    by (simp add: at_level_def level_of_def)
  have env: "now (at_ms u) = u" "audioOk (at_ms u)" for u
    by (simp_all add: at_ms_def)
  have l0: "lastRiskLevel ?s = ''''" "lastBeepAt ?s = 0" by (simp_all add: load_def)
  have l1: "lastRiskLevel ?s1 = ''Low''" by (simp add: setRiskUI_lastRiskLevel lv)
  have lb: "lastBeepAt ?s1 = 0"
    by (simp add: setRiskUI_lastBeepAt lv l0)
  have a: "new_cues ?s ?s1 = []"
    using setRiskUI_transition_cues [of ?s "at_level ''Low''" "at_ms 5000"] l0 lv by simp
  have b: "new_cues ?s1 (setRiskUI (at_level ''Medium'') (at_ms 6000) ?s1) =
      [Cue ''medium'' 6000 (Sounded 660 200)]"
    using setRiskUI_transition_cues [of ?s1 "at_level ''Medium''" "at_ms 6000"] l1 lv lb
    by (simp add: env tone_def)
  have c: "new_cues ?s (setRiskUI (at_level ''Critical'') (at_ms 5000) ?s) =
      [Cue ''critical'' 5000 (Sounded 880 300)]"
    using setRiskUI_transition_cues [of ?s "at_level ''Critical''" "at_ms 5000"] l0 lv
    by (simp add: env tone_def)
  have d: "new_cues ?s (setRiskUI None (at_ms 5000) ?s) = []"
    using setRiskUI_transition_cues [of ?s None "at_ms 5000"] l0
    by (simp add: level_of_def)
  have e: "\<exists>c \<in> set (new_cues ?s1 (setRiskUI (at_level ''Medium'') (at_ms 6000) ?s1)). audible c"
    by (simp only: b) simp
  show ?thesis
    using l0 l1 a b c d e lv by (simp add: level_of_def)
qed

text \<open>
  Claim C10. An evaluation whose level is absent or empty leaves \<^verbatim>\<open>lastRiskLevel\<close> as
  it was. So for any level L, of the evaluations L, absent, L the last asks for no
  cue, although the one in between removed every risk class and set the neutral
  colours.
\<close>

theorem absent_level_keeps_lastRiskLevel:
  "(level_of r = '''' \<longrightarrow> lastRiskLevel (setRiskUI r e s) = lastRiskLevel s) \<and>
   (level_of r1 = l \<and> level_of r2 = '''' \<and> level_of r3 = l \<longrightarrow>
      (let s1 = setRiskUI r1 e1 s;
           s2 = setRiskUI r2 e2 s1;
           s3 = setRiskUI r3 e3 s2
       in lastRiskLevel s2 = lastRiskLevel s1 \<and>
          set (classList (riskView s2)) \<inter> set risk_classes = {} \<and>
          indicatorBackground (riskView s2) = ''rgba(169,183,223,.7)'' \<and>
          pillBorderColor (riskView s2) = ''rgba(255,255,255,.14)'' \<and>
          pillColor (riskView s2) = '''' \<and>
          riskText (riskView s2) = ''Risk: --'' \<and>
          new_cues s2 s3 = []))"
proof -
  have styling: "level_of r2 = '''' \<Longrightarrow>
      set (classList (riskView (setRiskUI r2 e2 a))) \<inter> set risk_classes = {} \<and>
      indicatorBackground (riskView (setRiskUI r2 e2 a)) = ''rgba(169,183,223,.7)'' \<and>
      pillBorderColor (riskView (setRiskUI r2 e2 a)) = ''rgba(255,255,255,.14)'' \<and>
      pillColor (riskView (setRiskUI r2 e2 a)) = '''' \<and>
      riskText (riskView (setRiskUI r2 e2 a)) = ''Risk: --''" for a
    by (auto simp add: setRiskUI_def Let_def style_for_def classList_remove_def)
  show ?thesis
    using styling
    by (simp add: Let_def setRiskUI_lastRiskLevel new_cues_def setRiskUI_log)
qed

theorem absent_level_keeps_lastRiskLevel_witness:
  "level_of None = '''' \<and> level_of (at_level ''Critical'') = ''Critical'' \<and>
   lastRiskLevel (setRiskUI None (at_ms 7000)
      (setRiskUI (at_level ''Critical'') (at_ms 5000) (load None (0, 0) blank))) = ''Critical'' \<and>
   classList (riskView (setRiskUI None (at_ms 7000)
      (setRiskUI (at_level ''Critical'') (at_ms 5000) (load None (0, 0) blank)))) = [] \<and>
   new_cues
     (setRiskUI None (at_ms 7000)
        (setRiskUI (at_level ''Critical'') (at_ms 5000) (load None (0, 0) blank)))
     (setRiskUI (at_level ''Critical'') (at_ms 9000)
        (setRiskUI None (at_ms 7000)
           (setRiskUI (at_level ''Critical'') (at_ms 5000) (load None (0, 0) blank)))) = []"
proof -
  let ?s = "load None (0, 0) blank"
  let ?s1 = "setRiskUI (at_level ''Critical'') (at_ms 5000) ?s"
  let ?s2 = "setRiskUI None (at_ms 7000) ?s1"
  have lv: "level_of (at_level ''Critical'') = ''Critical''" "level_of None = ''''"
    by (simp_all add: at_level_def level_of_def)
  have l1: "lastRiskLevel ?s1 = ''Critical''"
    by (simp add: setRiskUI_lastRiskLevel lv)
  have cl: "classList (riskView ?s2) = []"
    by (simp add: setRiskUI_def Let_def lv style_for_def classList_remove_def
        classList_add_def risk_classes_def load_def blank_def playIcuAlert_def at_ms_def)
  have keep: "lastRiskLevel ?s2 = lastRiskLevel ?s1"
    using absent_level_keeps_lastRiskLevel [where r = None and e = "at_ms 7000" and s = ?s1] lv
    by simp
  have quiet: "new_cues ?s2 (setRiskUI (at_level ''Critical'') (at_ms 9000) ?s2) = []"
    using absent_level_keeps_lastRiskLevel
            [where s = ?s and ?r1.0 = "at_level ''Critical''" and l = "''Critical''"
               and ?r2.0 = None and ?r3.0 = "at_level ''Critical''"
               and ?e1.0 = "at_ms 5000" and ?e2.0 = "at_ms 7000" and ?e3.0 = "at_ms 9000"] lv
    by (simp add: Let_def)
  show ?thesis using lv l1 cl keep quiet by simp
qed

subsection \<open>The debounce of \<^verbatim>\<open>playIcuAlert\<close>\<close>

text \<open>
  Claim C3. Whatever the client goes through after loading (start-up, polls, chat
  turns, SOS), any two audible cues are at least 1200 ms apart. And where a first
  request is audible, a second one less than 1200 ms after it is not, and a third
  one more than 1200 ms after the first is audible again if synthesis works.
\<close>

theorem audible_cues_1200ms_apart:
  "(\<forall>i j. i < j \<and>
      j < length (audible_times
            (run evs (boot hospitals position center resp t e (load stored center page)))) \<longrightarrow>
      1200 \<le>
        audible_times
          (run evs (boot hospitals position center resp t e (load stored center page))) ! j -
        audible_times
          (run evs (boot hospitals position center resp t e (load stored center page))) ! i) \<and>
   (1200 \<le> now e1 - lastBeepAt s \<and> audioOk e1 \<and> now e2 - now e1 < 1200 \<and>
    1200 < now e3 - now e1 \<and> audioOk e3 \<longrightarrow>
      (let s1 = playIcuAlert k1 e1 s;
           s2 = playIcuAlert k2 e2 s1;
           s3 = playIcuAlert k3 e3 s2
       in new_cues s s1 = [Cue k1 (now e1) (tone k1)] \<and>
          new_cues s1 s2 = [Cue k2 (now e2) Debounced] \<and>
          new_cues s2 s3 = [Cue k3 (now e3) (tone k3)]))"
proof -
  let ?final = "run evs (boot hospitals position center resp t e (load stored center page))"
  have "spaced ?final"
    by (intro spaced_run spaced_boot spaced_load)
  then have "sorted_wrt (\<lambda>a b. 1200 \<le> b - a) (audible_times ?final)"
    by (simp add: spaced_def)
  then have apart: "\<forall>i j. i < j \<and> j < length (audible_times ?final) \<longrightarrow>
      1200 \<le> audible_times ?final ! j - audible_times ?final ! i"
    by (simp add: sorted_wrt_iff_nth_less)
  have three: "1200 \<le> now e1 - lastBeepAt s \<and> audioOk e1 \<and> now e2 - now e1 < 1200 \<and>
    1200 < now e3 - now e1 \<and> audioOk e3 \<longrightarrow>
      (let s1 = playIcuAlert k1 e1 s;
           s2 = playIcuAlert k2 e2 s1;
           s3 = playIcuAlert k3 e3 s2
       in new_cues s s1 = [Cue k1 (now e1) (tone k1)] \<and>
          new_cues s1 s2 = [Cue k2 (now e2) Debounced] \<and>
          new_cues s2 s3 = [Cue k3 (now e3) (tone k3)])"
    by (simp add: Let_def new_cues_def playIcuAlert_log playIcuAlert_lastBeepAt)
  from apart three show ?thesis by blast
qed

theorem audible_cues_1200ms_apart_witness:
  "audible_times
     (run [SosResponse (Inr \<lparr>sos_data.session_id = ''a'', sos_data.nearest_hospital =
               \<lparr>name = ''General'', distance_km = ''2'', eta_minutes = ''5'', phone = ''123''\<rparr>\<rparr>)
             (at_ms 5000),
           SosResponse (Inl ''down'') (at_ms 6000),
           SosResponse (Inr \<lparr>sos_data.session_id = ''a'', sos_data.nearest_hospital =
               \<lparr>name = ''General'', distance_km = ''2'', eta_minutes = ''5'', phone = ''123''\<rparr>\<rparr>)
             (at_ms 7000)]
        (boot (Inl ''no hospitals'') None (0, 0) (Inl ''no vitals'')
           \<lparr>getHours = 12, getMinutes = 30, getSeconds = 15\<rparr> (at_ms 4000)
           (load None (0, 0) blank))) = [5000, 7000] \<and>
   (1200::int) \<le> 7000 - 5000 \<and>
   1200 \<le> now (at_ms 5000) - lastBeepAt blank \<and> audioOk (at_ms 5000) \<and>
   now (at_ms 5400) - now (at_ms 5000) < 1200 \<and>
   1200 < now (at_ms 6300) - now (at_ms 5000) \<and> audioOk (at_ms 6300) \<and>
   map cue_outcome
     (alertLog (playIcuAlert ''medium'' (at_ms 6300)
        (playIcuAlert ''critical'' (at_ms 5400)
           (playIcuAlert ''critical'' (at_ms 5000) blank)))) =
     [Sounded 880 300, Debounced, Sounded 660 200]"
proof -
  let ?ok = "Inr \<lparr>sos_data.session_id = ''a'', sos_data.nearest_hospital =
               \<lparr>name = ''General'', distance_km = ''2'', eta_minutes = ''5'', phone = ''123''\<rparr>\<rparr>"
  let ?evs = "[SosResponse ?ok (at_ms 5000), SosResponse (Inl ''down'') (at_ms 6000),
               SosResponse ?ok (at_ms 7000)]"
  let ?start = "boot (Inl ''no hospitals'') None (0, 0) (Inl ''no vitals'')
           \<lparr>getHours = 12, getMinutes = 30, getSeconds = 15\<rparr> (at_ms 4000)
           (load None (0, 0) blank)"
  have start: "alertLog ?start = []" "lastBeepAt ?start = 0"
    by (simp_all add: boot_def setToast_def load_def)
  have env: "now (at_ms u) = u" "audioOk (at_ms u)" for u
    by (simp_all add: at_ms_def)
  have times: "audible_times (run ?evs ?start) = [5000, 7000]"
    by (simp add: run_def audible_times_def sos_response_def Let_def setToast_frame
        adopt_frame playIcuAlert_log playIcuAlert_lastBeepAt env start tone_def)
  have gap: "1200 \<le> audible_times (run ?evs ?start) ! 1 - audible_times (run ?evs ?start) ! 0"
    using audible_cues_1200ms_apart
            [where evs = ?evs and hospitals = "Inl ''no hospitals''" and position = None
               and center = "(0, 0)" and resp = "Inl ''no vitals''"
               and t = "\<lparr>getHours = 12, getMinutes = 30, getSeconds = 15\<rparr>" and e = "at_ms 4000"
               and stored = None and page = blank]
    by (simp only: times) simp
  have three: "map cue_outcome
     (alertLog (playIcuAlert ''medium'' (at_ms 6300)
        (playIcuAlert ''critical'' (at_ms 5400)
           (playIcuAlert ''critical'' (at_ms 5000) blank)))) =
     [Sounded 880 300, Debounced, Sounded 660 200]"
    using audible_cues_1200ms_apart
            [where s = blank and ?e1.0 = "at_ms 5000" and ?e2.0 = "at_ms 5400"
               and ?e3.0 = "at_ms 6300" and ?k1.0 = "''critical''" and ?k2.0 = "''critical''"
               and ?k3.0 = "''medium''"]
    by (simp add: env Let_def new_cues_def playIcuAlert_log playIcuAlert_lastBeepAt
        blank_def tone_def)
  from times gap three show ?thesis
    by (simp add: env blank_def)
qed

text \<open>
  Claim C9. \<^verbatim>\<open>lastBeepAt\<close> is written before synthesis is attempted. A request that
  passes the debounce and whose synthesis throws makes no sound and still moves
  \<^verbatim>\<open>lastBeepAt\<close> to its time, so any request less than 1200 ms after it is dropped,
  whether or not synthesis would work by then.
\<close>

theorem failed_synthesis_consumes_window:
  "1200 \<le> now e1 - lastBeepAt s \<and> \<not> audioOk e1 \<and> now e2 - now e1 < 1200 \<longrightarrow>
     (let s1 = playIcuAlert k1 e1 s;
          s2 = playIcuAlert k2 e2 s1
      in lastBeepAt s1 = now e1 \<and>
         new_cues s s1 = [Cue k1 (now e1) SynthFailed] \<and>
         new_cues s1 s2 = [Cue k2 (now e2) Debounced] \<and>
         lastBeepAt s2 = now e1 \<and>
         audible_times s2 = audible_times s)"
  by (simp add: Let_def new_cues_def audible_times_def playIcuAlert_log playIcuAlert_lastBeepAt)

theorem failed_synthesis_consumes_window_witness:
  "1200 \<le> now \<lparr>now = 5000, audioOk = False\<rparr> - lastBeepAt blank \<and>
   \<not> audioOk \<lparr>now = 5000, audioOk = False\<rparr> \<and>
   now (at_ms 6100) - now \<lparr>now = 5000, audioOk = False\<rparr> < 1200 \<and>
   alertLog (playIcuAlert ''critical'' (at_ms 6100)
      (playIcuAlert ''medium'' \<lparr>now = 5000, audioOk = False\<rparr> blank)) =
     [Cue ''medium'' 5000 SynthFailed, Cue ''critical'' 6100 Debounced]"
  using failed_synthesis_consumes_window
          [where s = blank and ?e1.0 = "\<lparr>now = 5000, audioOk = False\<rparr>"
             and ?e2.0 = "at_ms 6100" and ?k1.0 = "''medium''" and ?k2.0 = "''critical''"]
  by (simp add: Let_def new_cues_def playIcuAlert_log playIcuAlert_lastBeepAt blank_def
      at_ms_def)

subsection \<open>The rolling series\<close>

text \<open>
  Claim C2. Starting from the empty arrays the script declares, after any sequence of
  calls of \<^verbatim>\<open>pushPulse\<close> the series holds the most recently pushed values, oldest
  first, at most 60 of them (30 in the older file), and the labels are those of the
  same calls, so the two arrays have the same length. In the running client, whatever
  callbacks run, the arrays never hold more than 60 points and always line up.
\<close>

theorem pushPulse_rolling_window:
  "(pulseSeries (pushes ps (load stored center page)) = drop (length ps - 60) (map snd ps) \<and>
    pulseLabels (pushes ps (load stored center page)) =
      drop (length ps - 60) (map (\<lambda>x. timeLabel (fst x)) ps) \<and>
    length (pulseSeries (pushes ps (load stored center page))) = min (length ps) 60 \<and>
    length (pulseLabels (pushes ps (load stored center page))) =
      length (pulseSeries (pushes ps (load stored center page)))) \<and>
   (pulseSeries (pushes_backend ps (load stored center page)) =
      drop (length ps - 30) (map snd ps) \<and>
    pulseLabels (pushes_backend ps (load stored center page)) =
      drop (length ps - 30) (map (\<lambda>x. timeLabel (fst x)) ps) \<and>
    length (pulseSeries (pushes_backend ps (load stored center page))) = min (length ps) 30 \<and>
    length (pulseLabels (pushes_backend ps (load stored center page))) =
      length (pulseSeries (pushes_backend ps (load stored center page)))) \<and>
   bounded_buffer 60
     (run evs (boot hospitals position center resp t e (load stored center page)))"
proof -
  have empty: "pulseSeries (load stored center page) = []"
      "pulseLabels (load stored center page) = []"
    by (simp_all add: load_def)
  have "bounded_buffer 60
      (run evs (boot hospitals position center resp t e (load stored center page)))"
    by (intro bounded_run bounded_boot bounded_load)
  then show ?thesis
    using pushes_window [OF empty, of ps] pushes_backend_window [OF empty, of ps]
    by (simp add: min_def)
qed

subsection \<open>Pill alerts\<close>

text \<open>
  Claim C7. \<^verbatim>\<open>applyAlerts\<close> labels the pulse pill High (Warning in the older file) with
  the warn class exactly when \<^verbatim>\<open>pulse_bpm\<close> exceeds 110 and Normal with the ok class
  otherwise, and the temperature pill Fever with the danger class exactly when
  \<^verbatim>\<open>temperature_c\<close> exceeds 38 and Normal with the ok class otherwise; at exactly 110
  and at exactly 38 both read Normal.
\<close>

theorem applyAlerts_thresholds:
  "pulseAlert (applyAlerts v s) =
     (if 110 < pulse_bpm v then \<lparr>textContent = ''High'', className = ''pill pill-warn''\<rparr>
      else \<lparr>textContent = ''Normal'', className = ''pill pill-ok''\<rparr>) \<and>
   tempAlert (applyAlerts v s) =
     (if 38 < temperature_c v then \<lparr>textContent = ''Fever'', className = ''pill pill-danger''\<rparr>
      else \<lparr>textContent = ''Normal'', className = ''pill pill-ok''\<rparr>) \<and>
   pulseAlert (applyAlerts_backend v s) =
     (if 110 < pulse_bpm v then \<lparr>textContent = ''Warning'', className = ''pill pill-warn''\<rparr>
      else \<lparr>textContent = ''Normal'', className = ''pill pill-ok''\<rparr>) \<and>
   tempAlert (applyAlerts_backend v s) =
     (if 38 < temperature_c v then \<lparr>textContent = ''Fever'', className = ''pill pill-danger''\<rparr>
      else \<lparr>textContent = ''Normal'', className = ''pill pill-ok''\<rparr>) \<and>
   (textContent (pulseAlert (applyAlerts v s)) = ''High'') = (110 < pulse_bpm v) \<and>
   (textContent (pulseAlert (applyAlerts_backend v s)) = ''Warning'') = (110 < pulse_bpm v) \<and>
   (textContent (tempAlert (applyAlerts v s)) = ''Fever'') = (38 < temperature_c v) \<and>
   (textContent (tempAlert (applyAlerts_backend v s)) = ''Fever'') = (38 < temperature_c v) \<and>
   pulseAlert (applyAlerts (v\<lparr>pulse_bpm := 110\<rparr>) s) =
     \<lparr>textContent = ''Normal'', className = ''pill pill-ok''\<rparr> \<and>
   tempAlert (applyAlerts (v\<lparr>temperature_c := 38\<rparr>) s) =
     \<lparr>textContent = ''Normal'', className = ''pill pill-ok''\<rparr> \<and>
   pulseAlert (applyAlerts_backend (v\<lparr>pulse_bpm := 110\<rparr>) s) =
     \<lparr>textContent = ''Normal'', className = ''pill pill-ok''\<rparr> \<and>
   tempAlert (applyAlerts_backend (v\<lparr>temperature_c := 38\<rparr>) s) =
     \<lparr>textContent = ''Normal'', className = ''pill pill-ok''\<rparr>"
  by (simp add: applyAlerts_def applyAlerts_backend_def Let_def)

subsection \<open>The forced cue of an automatic emergency\<close>



subsection \<open>The session identifier\<close>

text \<open>
  Claim C4. In \<^verbatim>\<open>src/static/app.js\<close>, a request to the vitals, chat or SOS endpoint
  built while \<^verbatim>\<open>sessionId\<close> is not empty carries it. Every callback leaves
  \<^verbatim>\<open>sessionId\<close> and the stored copy as they were, except the completion of a
  successful call, which sets both to the identifier of the response. So after any
  run of callbacks the identifier is the one of the latest successful response, or
  the initial one if there was none: the client never makes one up and never clears
  it by itself. Start-up adopts the identifier of the first vitals response likewise.
\<close>

theorem session_identifier_attached_and_adopted:
  "(sessionId s \<noteq> '''' \<and> sent s ev = Some req \<longrightarrow> attached req = Some (sessionId s)) \<and>
   sessionId (step s ev) = (case issued ev of None \<Rightarrow> sessionId s | Some sid \<Rightarrow> sid) \<and>
   storedSessionId (step s ev) =
     (case issued ev of None \<Rightarrow> storedSessionId s | Some sid \<Rightarrow> Some sid) \<and>
   sessionId (run evs s) = last (sessionId s # List.map_filter issued evs) \<and>
   sessionId (boot hospitals position center resp t e s) =
     (case hospitals of
        Inl msg \<Rightarrow> sessionId s
      | Inr u \<Rightarrow> (case resp of Inl msg \<Rightarrow> sessionId s
                 | Inr data \<Rightarrow> vitals_data.session_id data))"
proof -
  have "sessionId (boot hospitals position center resp t e s) =
     (case hospitals of
        Inl msg \<Rightarrow> sessionId s
      | Inr u \<Rightarrow> (case resp of Inl msg \<Rightarrow> sessionId s
                 | Inr data \<Rightarrow> vitals_data.session_id data))"
    by (cases hospitals; cases resp)
       (simp_all add: boot_def Let_def refreshVitals_response_def setToast_frame
          setRiskUI_frame pushPulse_frame applyAlerts_frame adopt_frame)
  then show ?thesis
    using attached_sent [of s ev req]
    by (simp add: sessionId_step storedSessionId_step sessionId_run)
qed

theorem session_identifier_attached_and_adopted_witness:
  "sessionId (adopt ''abc'' blank) \<noteq> '''' \<and>
   sent (adopt ''abc'' blank) PollTick = Some (GetVitals (Some ''abc'')) \<and>
   attached (GetVitals (Some ''abc'')) = Some (sessionId (adopt ''abc'' blank)) \<and>
   sent (adopt ''abc'' blank) (ChatSubmit '' fever '') = Some (PostAskAi ''fever'' ''abc'' 0 0) \<and>
   attached (PostAskAi ''fever'' ''abc'' 0 0) = Some (sessionId (adopt ''abc'' blank)) \<and>
   sent (adopt ''abc'' blank) (SosLocated (29, 31)) = Some (PostSos 29 31 ''abc'') \<and>
   attached (PostSos 29 31 ''abc'') = Some (sessionId (adopt ''abc'' blank))"
proof -
  let ?s = "adopt ''abc'' blank"
  have known: "sessionId ?s \<noteq> ''''" by (simp add: adopt_def)
  have poll: "sent ?s PollTick = Some (GetVitals (Some ''abc''))"
    by (simp add: refreshVitals_request_def adopt_def)
  have trimmed: "trim '' fever '' = ''fever''"
    by code_simp
  have chat: "sent ?s (ChatSubmit '' fever '') = Some (PostAskAi ''fever'' ''abc'' 0 0)"
    by (simp add: sendChat_request_def Let_def trimmed setToast_def adopt_def blank_def)
  have sos: "sent ?s (SosLocated (29, 31)) = Some (PostSos 29 31 ''abc'')"
    by (simp add: sos_request_def Let_def adopt_def)
  from known poll chat sos
    session_identifier_attached_and_adopted [of ?s PollTick "GetVitals (Some ''abc'')"]
    session_identifier_attached_and_adopted
      [of ?s "ChatSubmit '' fever ''" "PostAskAi ''fever'' ''abc'' 0 0"]
    session_identifier_attached_and_adopted
      [of ?s "SosLocated (29, 31)" "PostSos 29 31 ''abc''"]
  show ?thesis by simp
qed

subsection \<open>A failed first fetch\<close>

text \<open>
  Claim C8. In \<^verbatim>\<open>src/static/app.js\<close> a failure of the first vitals fetch shows the
  notice \<^verbatim>\<open>Boot error: ...\<close>, but \<^verbatim>\<open>boot\<close> is left before the interval and the listeners
  are installed, so nothing polls afterwards. In \<^verbatim>\<open>src/backend/static/app.js\<close> the
  same failure shows \<^verbatim>\<open>Vitals error: ...\<close> and the interval is installed all the same.
  In both files a failed interval poll changes nothing at all, the toast included.
\<close>

theorem first_fetch_failure_ends_boot:
  "toastText (boot (Inr ()) position center (Inl msg) t e (load stored center page)) =
     ''Boot error: '' @ msg \<and>
   \<not> toastHidden (boot (Inr ()) position center (Inl msg) t e (load stored center page)) \<and>
   \<not> polling (boot (Inr ()) position center (Inl msg) t e (load stored center page)) \<and>
   \<not> listening (boot (Inr ()) position center (Inl msg) t e (load stored center page)) \<and>
   polling (boot (Inr ()) position center (Inr data) t e (load stored center page)) \<and>
   toastText (firstVitals_backend (Inl msg) t (boot_backend s)) = ''Vitals error: '' @ msg \<and>
   \<not> toastHidden (firstVitals_backend (Inl msg) t (boot_backend s)) \<and>
   polling (firstVitals_backend (Inl msg) t (boot_backend s)) \<and>
   listening (firstVitals_backend (Inl msg) t (boot_backend s)) \<and>
   poll (Inl msg) t e s = s \<and>
   poll_backend (Inl msg) t s = s"
  by (simp add: boot_def Let_def refreshVitals_response_def
      refreshVitals_backend_response_def firstVitals_backend_def boot_backend_def
      poll_def poll_backend_def setToast_def load_def)

subsection \<open>The animated numerals\<close>


end
